theory Spec2Isabelle
  imports Complex_Main "HOL-Library.Word" "HOL-Library.Char_ord" "HOL-Library.List_Lexorder"
    "HOL-Library.Product_Lexorder" "HOL-Library.AList"
begin

section \<open>The review table of src/app.py\<close>

text \<open>
  The program is a script over one pandas frame, \<^verbatim>\<open>raw_df\<close>, as line 14 has loaded
  it. A frame is modelled as the list of its rows, in row order. The four text
  columns hold a string or NaN (\<open>None\<close>). The \<^verbatim>\<open>Review Count\<close> column holds
  whatever \<^verbatim>\<open>read_excel\<close> has put in the cell before line 18 and a 64-bit integer
  after it, so the row type is polymorphic in that column.

  A number in a cell is a Python integer, a finite float (its value, a rational)
  or an infinity. An \<^verbatim>\<open>int64\<close> is a word of 64 bits: \<open>+\<close> wraps, \<open>sint\<close> reads it.
\<close>

type_synonym int64 = "64 word"

datatype number = Py_int int | Py_float rat | Py_inf

datatype cell = NaN | Str string | Num number

datatype error = KeyError | ValueError | IntCastingNaNError | OverflowError

record 'a row =
  Company_Name :: "string option"
  Company_Type :: "string option"
  Company_Location :: "string option"
  Standardized_Category :: "string option"
  Review_Count :: 'a

subsection \<open>Lines 17 to 37: cleaning\<close>

text \<open>
  \<^verbatim>\<open>raw_df.dropna(subset=['Company Name', 'Standardized Category'])\<close>
  keeps the rows in which neither of the two cells is NaN. NaN is also what
  \<^verbatim>\<open>read_excel\<close> (line 14) makes of an empty cell.
\<close>

definition dropna :: "'a row list \<Rightarrow> 'a row list" where
  "dropna df =
     filter (\<lambda>r. Company_Name r \<noteq> None \<and> Standardized_Category r \<noteq> None) df"

text \<open>
  Line 18 works on the column as a whole, in 64-bit floats and integers. What is
  not fixed by the source is taken as a parameter:
  \<^item> \<open>parse\<close>: how pandas reads a string as a number (\<open>None\<close>: not a number);
  \<^item> \<open>machine\<close>: the \<^verbatim>\<open>int64\<close> that comes out of a cell whose value the machine
    cannot keep, given the column: an integer beyond \<open>2 ^ 53\<close> that passes through a
    float, a float beyond the range of \<^verbatim>\<open>int64\<close>, an integer beyond that range;
  \<^item> \<open>machine_error\<close>: the exception, if any, that a column with such a cell raises.
\<close>

record numerics =
  parse :: "string \<Rightarrow> number option"
  machine :: "number option list \<Rightarrow> number \<Rightarrow> int64"
  machine_error :: "number option list \<Rightarrow> error option"

text \<open>
  \<^verbatim>\<open>pd.to_numeric(..., errors='coerce')\<close>, cell by cell: a number stays, NaN stays NaN, a
  string is read as a number where pandas can and becomes NaN otherwise.
\<close>

fun to_numeric :: "numerics \<Rightarrow> cell \<Rightarrow> number option" where
  "to_numeric N NaN = None"
| "to_numeric N (Str s) = parse N s"
| "to_numeric N (Num v) = Some v"

definition in_int64 :: "int \<Rightarrow> bool" where
  "in_int64 n \<longleftrightarrow> - (2 ^ 63) \<le> n \<and> n < 2 ^ 63"

text \<open>The column is an \<^verbatim>\<open>int64\<close> column when every cell is an integer of that range.\<close>

fun is_int64 :: "number option \<Rightarrow> bool" where
  "is_int64 (Some (Py_int n)) = in_int64 n"
| "is_int64 v = False"

definition int64_column :: "number option list \<Rightarrow> bool" where
  "int64_column vs \<longleftrightarrow> (\<forall>v \<in> set vs. is_int64 v)"

text \<open>The cast of a float to an integer cuts the fraction off, towards zero.\<close>

definition toward_zero :: "rat \<Rightarrow> int" where
  "toward_zero q = (if 0 \<le> q then \<lfloor>q\<rfloor> else \<lceil>q\<rceil>)"

text \<open>
  The cells whose treatment does not depend on the machine. In an \<^verbatim>\<open>int64\<close> column
  nothing is converted. In any other column the cells become floats: NaN is filled
  with 0, an integer up to \<open>2 ^ 53\<close> is itself as a float, and a float whose integer
  part is in the range of \<^verbatim>\<open>int64\<close> is cast to that part. An infinity makes
  \<^verbatim>\<open>.astype(int)\<close> raise.
\<close>

fun exact :: "number option list \<Rightarrow> number option \<Rightarrow> bool" where
  "exact vs None = True"
| "exact vs (Some (Py_int n)) = (\<bar>n\<bar> \<le> 2 ^ 53 \<or> int64_column vs)"
| "exact vs (Some (Py_float q)) = in_int64 (toward_zero q)"
| "exact vs (Some Py_inf) = True"

text \<open>\<^verbatim>\<open>.fillna(0).astype(int)\<close>, one cell of the column \<open>vs\<close>.\<close>

fun astype_int :: "numerics \<Rightarrow> number option list \<Rightarrow> number option \<Rightarrow> int64" where
  "astype_int N vs None = 0"
| "astype_int N vs (Some (Py_int n)) =
     (if \<bar>n\<bar> \<le> 2 ^ 53 \<or> int64_column vs then word_of_int n else machine N vs (Py_int n))"
| "astype_int N vs (Some (Py_float q)) =
     (if in_int64 (toward_zero q) then word_of_int (toward_zero q) else machine N vs (Py_float q))"
| "astype_int N vs (Some Py_inf) = machine N vs Py_inf"

text \<open>Line 18 on the column \<open>cs\<close>.\<close>

definition review_counts :: "numerics \<Rightarrow> cell list \<Rightarrow> error + int64 list" where
  "review_counts N cs =
     (let vs = map (to_numeric N) cs
      in case (if \<forall>v \<in> set vs. exact vs v then None else machine_error N vs) of
           Some e \<Rightarrow> Inl e
         | None \<Rightarrow>
             if Some Py_inf \<in> set vs then Inl IntCastingNaNError
             else Inr (map (astype_int N vs) vs))"

text \<open>
  \<^verbatim>\<open>Series.replace(mapping)\<close>: a value that is a key of the dictionary becomes the
  dictionary's value for it, every other value, and NaN, stays as it is.
\<close>

definition replace :: "(string \<times> string) list \<Rightarrow> string option \<Rightarrow> string option" where
  "replace m v =
     (case v of
        None \<Rightarrow> None
      | Some s \<Rightarrow> (case map_of m s of None \<Rightarrow> Some s | Some s' \<Rightarrow> Some s'))"

definition company_type_mapping :: "(string \<times> string) list" where
  "company_type_mapping =
     [(''Modern/High-Class Private Hospital'', ''High-Class Private Hospital'')]"

definition category_mapping :: "(string \<times> string) list" where
  "category_mapping =
     [(''Slow Services or Lengthy Waiting Times'', ''Slow Services or Lengthy Waiting Times''),
      (''Unprofessional Staff'', ''Unprofessional Staff''),
      (''Hostility'', ''Hostility''),
      (''Poor Compensation'', ''Poor Compensation''),
      (''Unavailability of Medication/Equipment'', ''Unavailability of Medication/Equipment''),
      (''Unavailability of Specialist'', ''Unavailability of Specialists''),
      (''Expensive Costs'', ''Expensive Costs''),
      (''Others'', ''Others'')]"

text \<open>Lines 24 and 37 on one row, with the row's new review count.\<close>

definition clean_row :: "cell row \<Rightarrow> int64 \<Rightarrow> int64 row" where
  "clean_row r w =
     \<lparr>Company_Name = Company_Name r,
      Company_Type = replace company_type_mapping (Company_Type r),
      Company_Location = Company_Location r,
      Standardized_Category = replace category_mapping (Standardized_Category r),
      Review_Count = w\<rparr>"

text \<open>
  The frame after line 37, which the specification calls the output of
  \<^verbatim>\<open>normalize\<close>; \<^verbatim>\<open>viz_df\<close> of line 41 is a copy of it.
\<close>

definition normalize :: "numerics \<Rightarrow> cell row list \<Rightarrow> error + int64 row list" where
  "normalize N raw_df =
     (let df = dropna raw_df
      in case review_counts N (map Review_Count df) of
           Inl e \<Rightarrow> Inl e
         | Inr ws \<Rightarrow> Inr (map (\<lambda>(r, w). clean_row r w) (zip df ws)))"

text \<open>A cleaned frame read again as a raw one: the count is an integer cell.\<close>

definition as_raw :: "int64 row \<Rightarrow> cell row" where
  "as_raw r =
     \<lparr>Company_Name = Company_Name r,
      Company_Type = Company_Type r,
      Company_Location = Company_Location r,
      Standardized_Category = Standardized_Category r,
      Review_Count = Num (Py_int (sint (Review_Count r)))\<rparr>"

text \<open>Lines 96 to 105.\<close>

definition available_categories :: "string list" where
  "available_categories =
     [''Slow Services or Lengthy Waiting Times'',
      ''Unavailability of Medication/Equipment'',
      ''Unprofessional Staff'',
      ''Unavailability of Specialists'',
      ''Poor Compensation'',
      ''Hostility'',
      ''Expensive Costs'',
      ''Others'']"

subsection \<open>Grouping\<close>

text \<open>
  \<^verbatim>\<open>df.groupby(keys)\<close>: the rows with a NaN key are left out, the groups come in
  ascending order of their key (strings compare as in Python, character by
  character, a proper prefix first), and a group keeps its rows in frame order.
  The key of a row is \<open>None\<close> where one of its key cells is NaN.
\<close>

definition groupby :: "('r \<Rightarrow> 'k::linorder option) \<Rightarrow> 'r list \<Rightarrow> ('k \<times> 'r list) list" where
  "groupby key df =
     map (\<lambda>k. (k, filter (\<lambda>r. key r = Some k) df)) (sort (remdups (List.map_filter key df)))"

text \<open>The key of \<^verbatim>\<open>groupby(['Standardized Category', 'Company Type'])\<close>.\<close>

definition group_key :: "'a row \<Rightarrow> (string \<times> string) option" where
  "group_key r =
     (case Standardized_Category r of
        None \<Rightarrow> None
      | Some c \<Rightarrow> (case Company_Type r of None \<Rightarrow> None | Some t \<Rightarrow> Some (c, t)))"

text \<open>
  \<^verbatim>\<open>.size()\<close> and \<^verbatim>\<open>['Review Count'].sum()\<close> of the groups. The sum is a sum of
  \<^verbatim>\<open>int64\<close> and wraps; the size of a group is far from the range's end.
\<close>

definition groupby_size :: "('k \<times> 'r list) list \<Rightarrow> ('k \<times> int) list" where
  "groupby_size gs = map (\<lambda>(k, g). (k, int (length g))) gs"

definition groupby_sum :: "('k \<times> int64 row list) list \<Rightarrow> ('k \<times> int64) list" where
  "groupby_sum gs = map (\<lambda>(k, g). (k, sum_list (map Review_Count g))) gs"

text \<open>
  A wide frame is the list of its rows: the row's label and its cells, one per
  column, in column order. \<^verbatim>\<open>.unstack(fill_value=0)\<close> takes the first key level as the
  row labels and the second as the columns, both ascending, and fills the cells
  no group stands for.
\<close>

type_synonym 'v wide = "(string \<times> (string \<times> 'v) list) list"

definition unstack :: "'v \<Rightarrow> ((string \<times> string) \<times> 'v) list \<Rightarrow> 'v wide" where
  "unstack fill_value s =
     (let index = sort (remdups (map (\<lambda>(k, v). fst k) s));
          cols = sort (remdups (map (\<lambda>(k, v). snd k) s))
      in map (\<lambda>c. (c, map (\<lambda>t. (t, case map_of s (c, t) of None \<Rightarrow> fill_value | Some v \<Rightarrow> v)) cols))
           index)"

definition columns :: "'v wide \<Rightarrow> string list" where
  "columns w = (case w of [] \<Rightarrow> [] | (c, cells) # _ \<Rightarrow> map fst cells)"

text \<open>
  \<^verbatim>\<open>.reset_index()\<close> makes the row labels a column named after the key level; pandas
  refuses when a column of that name is there already. The label column stays the
  first component of a row, also after line 65 has renamed it.
\<close>

definition reset_index :: "string \<Rightarrow> 'v wide \<Rightarrow> error + 'v wide" where
  "reset_index name w = (if name \<in> set (columns w) then Inl ValueError else Inr w)"

text \<open>Lines 52 to 56.\<close>

definition company_types :: "string list" where
  "company_types =
     [''Government Hospital'', ''Small Private Hospital'', ''High-Class Private Hospital'']"

text \<open>Lines 59 to 61, one turn of the loop.\<close>

definition ensure_column :: "string \<Rightarrow> 'v::zero wide \<Rightarrow> 'v wide" where
  "ensure_column ct w =
     (if ct \<in> set (columns w) then w else map (\<lambda>(c, cells). (c, cells @ [(ct, 0)])) w)"

text \<open>\<^verbatim>\<open>row[cts]\<close>: the cells of the named columns; a name that is no column is a KeyError.\<close>

fun getitems :: "(string \<times> 'v) list \<Rightarrow> string list \<Rightarrow> error + 'v list" where
  "getitems cells [] = Inr []"
| "getitems cells (k # ks) =
     (case map_of cells k of
        None \<Rightarrow> Inl KeyError
      | Some v \<Rightarrow> (case getitems cells ks of Inl e \<Rightarrow> Inl e | Inr vs \<Rightarrow> Inr (v # vs)))"

text \<open>
  Line 64, \<^verbatim>\<open>df['Total'] = df[company_types].sum(axis=1).astype(int)\<close>: the
  assignment writes the column \<^verbatim>\<open>Total\<close>, over a column of that name if there is one.
\<close>

fun add_total :: "string list \<Rightarrow> 'v::monoid_add wide \<Rightarrow> error + 'v wide" where
  "add_total cts [] = Inr []"
| "add_total cts ((c, cells) # w) =
     (case getitems cells cts of
        Inl e \<Rightarrow> Inl e
      | Inr vs \<Rightarrow>
          (case add_total cts w of
             Inl e \<Rightarrow> Inl e
           | Inr w' \<Rightarrow> Inr ((c, AList.update ''Total'' (sum_list vs) cells) # w')))"

text \<open>Lines 58 to 65 and, word for word, 76 to 82.\<close>

definition with_total :: "error + 'v::monoid_add wide \<Rightarrow> error + 'v wide" where
  "with_total x =
     (case x of Inl e \<Rightarrow> Inl e | Inr w \<Rightarrow> add_total company_types (fold ensure_column company_types w))"

text \<open>Lines 44 to 65.\<close>

definition company_counts :: "'a row list \<Rightarrow> error + int wide" where
  "company_counts raw_df =
     with_total (reset_index ''Standardized Category''
       (unstack 0 (groupby_size (groupby group_key raw_df))))"

text \<open>Lines 68 to 82.\<close>

definition reviews_per_type :: "int64 row list \<Rightarrow> error + int64 wide" where
  "reviews_per_type raw_df =
     with_total (reset_index ''Standardized Category''
       (unstack 0 (groupby_sum (groupby group_key raw_df))))"

subsection \<open>Lines 89 to 93: the companies of each category\<close>

text \<open>\<^verbatim>\<open>.drop_duplicates()\<close> keeps the first of equal rows; two NaN cells count as equal.\<close>

fun drop_duplicates_from :: "'a list \<Rightarrow> 'a list \<Rightarrow> 'a list" where
  "drop_duplicates_from seen [] = []"
| "drop_duplicates_from seen (x # xs) =
     (if x \<in> set seen then drop_duplicates_from seen xs
      else x # drop_duplicates_from (x # seen) xs)"

definition drop_duplicates :: "'a list \<Rightarrow> 'a list" where
  "drop_duplicates xs = drop_duplicates_from [] xs"

type_synonym company = "string option \<times> string option"

text \<open>
  With at least one group, \<^verbatim>\<open>.apply\<close> gives one list of companies for each category.
  With no group, so on a frame without rows, it gives an empty frame instead, and
  lines 92 and 93, which make the labels a column and name two columns, raise
  ValueError.
\<close>

definition company_breakdown :: "'a row list \<Rightarrow> error + (string \<times> company list) list" where
  "company_breakdown viz_df =
     (case groupby fst
        (drop_duplicates
          (map (\<lambda>r. (Standardized_Category r, Company_Name r, Company_Location r)) viz_df)) of
        [] \<Rightarrow> Inl ValueError
      | g # gs \<Rightarrow> Inr (map (\<lambda>(c, g). (c, map snd g)) (g # gs)))"

subsection \<open>Lines 11 to 93: what the script holds when the page is built\<close>

record app =
  app_viz_df :: "int64 row list"
  app_company_counts :: "int wide"
  app_reviews_per_type :: "int64 wide"
  app_company_breakdown :: "(string \<times> company list) list"

text \<open>
  An exception in one statement ends the script: no callback is ever registered.
  Lines 85 and 86 sum the review counts once more for the two overview charts, from
  the same groups and without \<^verbatim>\<open>unstack\<close>; no callback below reads these sums
  and they are left out.
\<close>

definition script :: "numerics \<Rightarrow> cell row list \<Rightarrow> error + app" where
  "script N raw_df =
     (case normalize N raw_df of
        Inl e \<Rightarrow> Inl e
      | Inr df \<Rightarrow>
          (case company_counts df of
             Inl e \<Rightarrow> Inl e
           | Inr cc \<Rightarrow>
               (case reviews_per_type df of
                  Inl e \<Rightarrow> Inl e
                | Inr rp \<Rightarrow>
                    (case company_breakdown df of
                       Inl e \<Rightarrow> Inl e
                     | Inr cb \<Rightarrow>
                         Inr \<lparr>app_viz_df = df, app_company_counts = cc,
                              app_reviews_per_type = rp, app_company_breakdown = cb\<rparr>))))"

subsection \<open>Lines 620 to 753: the two callbacks\<close>

text \<open>
  \<^verbatim>\<open>column == value\<close>, cell by cell: a NaN cell equals nothing, and nothing equals
  a missing selection.
\<close>

definition eq_cell :: "string option \<Rightarrow> string option \<Rightarrow> bool" where
  "eq_cell a b = (case a of None \<Rightarrow> False | Some x \<Rightarrow> (case b of None \<Rightarrow> False | Some y \<Rightarrow> x = y))"

text \<open>
  Of the figure, what the callback computes from the data: the category in the
  title, the frame \<^verbatim>\<open>category_by_type\<close> handed to the chart and the number in the
  centre annotation, both sums of \<^verbatim>\<open>int64\<close>. Drawing is left to plotly. The callback
  reads the global \<^verbatim>\<open>viz_df\<close>.
\<close>

record figure =
  title_category :: "string option"
  category_by_type :: "(string \<times> int64) list"
  total_reviews :: int64

definition update_category_pie :: "int64 row list \<Rightarrow> string option \<Rightarrow> figure" where
  "update_category_pie viz_df selected_category =
     (let category_data = filter (\<lambda>r. eq_cell (Standardized_Category r) selected_category) viz_df;
          by_type = groupby_sum (groupby Company_Type category_data)
      in \<lparr>title_category = selected_category,
          category_by_type = by_type,
          total_reviews = sum_list (map snd by_type)\<rparr>)"

datatype component = No_companies_found | DataTable "company list"

text \<open>The callback reads the global \<^verbatim>\<open>company_breakdown\<close> of lines 89 to 93.\<close>

definition update_company_breakdown ::
  "(string \<times> company list) list \<Rightarrow> string option \<Rightarrow> component" where
  "update_company_breakdown breakdown_table selected_category =
     (case filter (\<lambda>(c, companies). eq_cell (Some c) selected_category) breakdown_table of
        [] \<Rightarrow> No_companies_found
      | (c, companies) # _ \<Rightarrow> DataTable companies)"

subsection \<open>The words of the specification\<close>

text \<open>The records of a frame in the cell of a category and a company type.\<close>

definition in_cell :: "string \<Rightarrow> string \<Rightarrow> 'a row \<Rightarrow> bool" where
  "in_cell c t r \<longleftrightarrow> Standardized_Category r = Some c \<and> Company_Type r = Some t"

definition records_in_cell :: "'a row list \<Rightarrow> string \<Rightarrow> string \<Rightarrow> int" where
  "records_in_cell df c t = int (length (filter (in_cell c t) df))"

definition companies_in_cell :: "'a row list \<Rightarrow> string \<Rightarrow> string \<Rightarrow> int" where
  "companies_in_cell df c t = int (length (remdups (map Company_Name (filter (in_cell c t) df))))"

text \<open>Position of the first occurrence of a value in a list.\<close>

definition first_seen :: "'a list \<Rightarrow> 'a \<Rightarrow> nat" where
  "first_seen xs x = length (takeWhile (\<lambda>y. y \<noteq> x) xs)"

text \<open>
  A raw review count that line 18 treats the same on every machine and in every
  column: a missing cell, a text that is no number, an integer up to \<open>2 ^ 53\<close>, a
  finite float whose integer part is in the range of \<^verbatim>\<open>int64\<close>.
\<close>

fun plain :: "number option \<Rightarrow> bool" where
  "plain None = True"
| "plain (Some (Py_int n)) = (\<bar>n\<bar> \<le> 2 ^ 53)"
| "plain (Some (Py_float q)) = in_int64 (toward_zero q)"
| "plain (Some Py_inf) = False"

section \<open>Cleaning: what the frame holds after line 37\<close>

lemma replace_eq_None [simp]: "replace m v = None \<longleftrightarrow> v = None"
  by (simp add: replace_def split: option.splits)

lemma in_dropna:
  "r \<in> set (dropna df) \<longleftrightarrow>
     r \<in> set df \<and> Company_Name r \<noteq> None \<and> Standardized_Category r \<noteq> None"
  by (auto simp: dropna_def)

lemma replace_category_mapping:
  "replace category_mapping (Some s) =
     (if s = ''Unavailability of Specialist'' then Some ''Unavailability of Specialists'' else Some s)"
  by (simp add: replace_def category_mapping_def)

lemma sint_word_of_int:
  "in_int64 n \<Longrightarrow> sint (word_of_int n :: int64) = n"
  by (simp add: in_int64_def signed_of_int signed_take_bit_int_eq_self)

lemma in_int64_sint: "in_int64 (sint (w :: int64))"
  using sint_ge [of w] sint_lt [of w] by (simp add: in_int64_def)

lemma in_int64_small: "\<bar>n\<bar> \<le> 2 ^ 53 \<Longrightarrow> in_int64 n"
  unfolding in_int64_def by simp linarith

lemma review_counts_Inr:
  assumes "review_counts N cs = Inr ws"
  shows "Some Py_inf \<notin> set (map (to_numeric N) cs)"
    and "ws = map (astype_int N (map (to_numeric N) cs)) (map (to_numeric N) cs)"
  using assms
  by (auto simp: review_counts_def Let_def split: option.splits if_splits)

lemma plain_exact: "plain v \<Longrightarrow> exact vs v"
  by (cases "(vs, v)" rule: exact.cases) simp_all

lemma review_counts_plain:
  assumes "\<forall>c \<in> set cs. plain (to_numeric N c)"
  shows "\<exists>ws. review_counts N cs = Inr ws"
proof -
  let ?vs = "map (to_numeric N) cs"
  from assms have "\<forall>v \<in> set ?vs. exact ?vs v"
    by (simp add: plain_exact)
  moreover have "Some Py_inf \<notin> set ?vs"
  proof
    assume "Some Py_inf \<in> set ?vs"
    then obtain c where "c \<in> set cs" and "to_numeric N c = Some Py_inf"
      by auto
    with assms show False
      by (metis plain.simps(4))
  qed
  ultimately show ?thesis
    by (simp add: review_counts_def Let_def)
qed

lemma toward_zero_bounds:
  "\<bar>rat_of_int (toward_zero q)\<bar> \<le> \<bar>q\<bar> \<and> \<bar>q\<bar> < \<bar>rat_of_int (toward_zero q)\<bar> + 1
     \<and> (0 \<le> toward_zero q \<longleftrightarrow> - 1 < q)"
proof (cases "0 \<le> q")
  case True
  then show ?thesis
    by (simp add: toward_zero_def) linarith
next
  case False
  define n where "n = \<lceil>q\<rceil>"
  have up: "q \<le> rat_of_int n" and low: "rat_of_int n - 1 < q"
    unfolding n_def by linarith+
  from False up low have "n \<le> 0"
    by (metis False ceiling_le_zero n_def not_le order_less_imp_le)
  then consider "n = 0" | "n \<le> - 1" by linarith
  then have "\<bar>rat_of_int n\<bar> \<le> \<bar>q\<bar> \<and> \<bar>q\<bar> < \<bar>rat_of_int n\<bar> + 1 \<and> (0 \<le> n \<longleftrightarrow> - 1 < q)"
  proof cases
    case 1
    with False up low show ?thesis by simp
  next
    case 2
    then have "rat_of_int n \<le> - 1" by (metis of_int_le_iff of_int_minus of_int_1)
    with 2 False up low show ?thesis by simp
  qed
  with False show ?thesis by (simp add: toward_zero_def n_def)
qed

lemma zip_with_map: "zip xs (map f xs) = map (\<lambda>x. (x, f x)) xs"
  by (induction xs) simp_all

lemma normalize_Inr:
  assumes "normalize N raw_df = Inr df"
  shows "Some Py_inf \<notin> set (map (\<lambda>r. to_numeric N (Review_Count r)) (dropna raw_df))"
    and "df = map (\<lambda>r. clean_row r
            (astype_int N (map (\<lambda>r. to_numeric N (Review_Count r)) (dropna raw_df))
               (to_numeric N (Review_Count r))))
          (dropna raw_df)"
proof -
  from assms obtain ws
    where ws: "review_counts N (map Review_Count (dropna raw_df)) = Inr ws"
      and df: "df = map (\<lambda>(r, w). clean_row r w) (zip (dropna raw_df) ws)"
    by (auto simp: normalize_def Let_def split: sum.splits)
  from review_counts_Inr(1) [OF ws]
  show "Some Py_inf \<notin> set (map (\<lambda>r. to_numeric N (Review_Count r)) (dropna raw_df))"
    by (simp add: o_def)
  from review_counts_Inr(2) [OF ws]
  have "ws = map (\<lambda>r. astype_int N (map (\<lambda>r. to_numeric N (Review_Count r)) (dropna raw_df))
               (to_numeric N (Review_Count r))) (dropna raw_df)"
    by (simp add: o_def)
  then show "df = map (\<lambda>r. clean_row r
            (astype_int N (map (\<lambda>r. to_numeric N (Review_Count r)) (dropna raw_df))
               (to_numeric N (Review_Count r))))
          (dropna raw_df)"
    unfolding df by (simp only: zip_with_map map_map o_def prod.case)
qed

lemma normalize_returns:
  assumes "\<forall>r \<in> set (dropna raw_df). plain (to_numeric N (Review_Count r))"
  shows "\<exists>df. normalize N raw_df = Inr df"
proof -
  from assms have "\<forall>c \<in> set (map Review_Count (dropna raw_df)). plain (to_numeric N c)"
    by simp
  from review_counts_plain [OF this] show ?thesis
    by (auto simp: normalize_def Let_def)
qed

lemma astype_int_cases:
  "case v of
     None \<Rightarrow> astype_int N vs v = 0
   | Some (Py_int n) \<Rightarrow> \<bar>n\<bar> \<le> 2 ^ 53 \<longrightarrow> sint (astype_int N vs v) = n
   | Some (Py_float q) \<Rightarrow> in_int64 (toward_zero q) \<longrightarrow> sint (astype_int N vs v) = toward_zero q
   | Some Py_inf \<Rightarrow> True"
  by (cases "(N, vs, v)" rule: astype_int.cases)
    (simp_all add: sint_word_of_int in_int64_small)

lemma normalize_Nil: "normalize N [] = Inr []"
  by (simp add: normalize_def dropna_def review_counts_def)

lemma cleaned_row:
  assumes "normalize N raw_df = Inr df" and "r \<in> set df"
  shows "\<exists>r0 \<in> set (dropna raw_df). \<exists>w. r = clean_row r0 w"
  using assms(2) by (subst (asm) normalize_Inr(2) [OF assms(1)]) auto

lemma cleaned_category_present:
  assumes "normalize N raw_df = Inr df" and "r \<in> set df"
  shows "Standardized_Category r \<noteq> None"
proof -
  from cleaned_row [OF assms] obtain r0 w
    where "r0 \<in> set (dropna raw_df)" and r: "r = clean_row r0 w"
    by blast
  then have "Standardized_Category r0 \<noteq> None"
    by (simp add: in_dropna)
  then show ?thesis
    by (simp add: r clean_row_def)
qed

lemma cleaned_type_clash:
  assumes "normalize N raw_df = Inr df" and "r \<in> set df"
    and "Company_Type r = Some ''Standardized Category''"
  shows "\<exists>r0 \<in> set raw_df. Company_Type r0 = Some ''Standardized Category''"
proof -
  from cleaned_row [OF assms(1,2)] obtain r0 w
    where r0: "r0 \<in> set raw_df" and r: "r = clean_row r0 w"
    by (auto simp: in_dropna)
  from assms(3) have "replace company_type_mapping (Company_Type r0) = Some ''Standardized Category''"
    by (simp add: r clean_row_def)
  then have "Company_Type r0 = Some ''Standardized Category''"
    by (cases "Company_Type r0")
      (simp_all add: replace_def company_type_mapping_def split: if_splits)
  with r0 show ?thesis by blast
qed

text \<open>
  C1, as the code has it. When lines 17 and 18 return, the cleaned frame has
  exactly the rows of the loaded frame in which company name and category are both
  there (not NaN, which is also what an empty cell is loaded as), in their order,
  with name and location as they were; a loaded frame without an empty string as a
  name or category gives a cleaned frame without one. The count of a kept row is 0
  where the raw cell is missing or is no number, the raw number itself where that
  is an integer of at most \<open>2 ^ 53\<close> in absolute value, and the raw number
  cut towards zero where that is a float whose integer part is in the range of
  \<^verbatim>\<open>int64\<close>; an infinite count never gets through. Lines 17 and 18 return
  whenever every kept raw count is of these kinds. Cutting towards zero moves a
  number by less than 1 and gives a negative integer exactly for the numbers of at
  most \<open>- 1\<close>: nothing makes a count non-negative.
\<close>

theorem normalize_output:
  "(normalize N raw_df = Inr df \<longrightarrow>
      list_all2
        (\<lambda>r r'. Company_Name r' = Company_Name r \<and> Company_Location r' = Company_Location r
           \<and> Company_Name r' \<noteq> None \<and> Standardized_Category r' \<noteq> None
           \<and> (case to_numeric N (Review_Count r) of
                 None \<Rightarrow> Review_Count r' = 0
               | Some (Py_int n) \<Rightarrow> \<bar>n\<bar> \<le> 2 ^ 53 \<longrightarrow> sint (Review_Count r') = n
               | Some (Py_float q) \<Rightarrow>
                   in_int64 (toward_zero q) \<longrightarrow> sint (Review_Count r') = toward_zero q
               | Some Py_inf \<Rightarrow> False))
        (filter (\<lambda>r. Company_Name r \<noteq> None \<and> Standardized_Category r \<noteq> None) raw_df) df
      \<and> ((\<forall>r \<in> set raw_df. Company_Name r \<noteq> Some '''' \<and> Standardized_Category r \<noteq> Some '''') \<longrightarrow>
          (\<forall>r' \<in> set df. Company_Name r' \<noteq> Some '''' \<and> Standardized_Category r' \<noteq> Some '''')))
   \<and> ((\<forall>r \<in> set raw_df. Company_Name r \<noteq> None \<and> Standardized_Category r \<noteq> None \<longrightarrow>
          plain (to_numeric N (Review_Count r))) \<longrightarrow>
       (\<exists>df. normalize N raw_df = Inr df))
   \<and> (\<forall>q. \<bar>rat_of_int (toward_zero q)\<bar> \<le> \<bar>q\<bar> \<and> \<bar>q\<bar> < \<bar>rat_of_int (toward_zero q)\<bar> + 1
          \<and> (0 \<le> toward_zero q \<longleftrightarrow> - 1 < q))"
proof (intro conjI impI allI)
  assume ok: "normalize N raw_df = Inr df"
  let ?vs = "map (\<lambda>r. to_numeric N (Review_Count r)) (dropna raw_df)"
  let ?out = "\<lambda>r. clean_row r (astype_int N ?vs (to_numeric N (Review_Count r)))"
  note df = normalize_Inr(2) [OF ok]
  have row: "Company_Name (?out r) = Company_Name r \<and> Company_Location (?out r) = Company_Location r
           \<and> Company_Name (?out r) \<noteq> None \<and> Standardized_Category (?out r) \<noteq> None
           \<and> (case to_numeric N (Review_Count r) of
                 None \<Rightarrow> Review_Count (?out r) = 0
               | Some (Py_int n) \<Rightarrow> \<bar>n\<bar> \<le> 2 ^ 53 \<longrightarrow> sint (Review_Count (?out r)) = n
               | Some (Py_float q) \<Rightarrow>
                   in_int64 (toward_zero q) \<longrightarrow> sint (Review_Count (?out r)) = toward_zero q
               | Some Py_inf \<Rightarrow> False)"
    if r: "r \<in> set (dropna raw_df)" for r
  proof -
    from r have present: "Company_Name r \<noteq> None" "Standardized_Category r \<noteq> None"
      by (simp_all add: in_dropna)
    from r normalize_Inr(1) [OF ok] have finite: "to_numeric N (Review_Count r) \<noteq> Some Py_inf"
      by force
    have count: "case to_numeric N (Review_Count r) of
                 None \<Rightarrow> Review_Count (?out r) = 0
               | Some (Py_int n) \<Rightarrow> \<bar>n\<bar> \<le> 2 ^ 53 \<longrightarrow> sint (Review_Count (?out r)) = n
               | Some (Py_float q) \<Rightarrow>
                   in_int64 (toward_zero q) \<longrightarrow> sint (Review_Count (?out r)) = toward_zero q
               | Some Py_inf \<Rightarrow> False"
      using astype_int_cases [where v = "to_numeric N (Review_Count r)" and N = N and vs = ?vs] finite
      by (simp add: clean_row_def split: option.splits number.splits)
    from present count show ?thesis
      by (simp add: clean_row_def)
  qed
  show "list_all2
        (\<lambda>r r'. Company_Name r' = Company_Name r \<and> Company_Location r' = Company_Location r
           \<and> Company_Name r' \<noteq> None \<and> Standardized_Category r' \<noteq> None
           \<and> (case to_numeric N (Review_Count r) of
                 None \<Rightarrow> Review_Count r' = 0
               | Some (Py_int n) \<Rightarrow> \<bar>n\<bar> \<le> 2 ^ 53 \<longrightarrow> sint (Review_Count r') = n
               | Some (Py_float q) \<Rightarrow>
                   in_int64 (toward_zero q) \<longrightarrow> sint (Review_Count r') = toward_zero q
               | Some Py_inf \<Rightarrow> False))
        (filter (\<lambda>r. Company_Name r \<noteq> None \<and> Standardized_Category r \<noteq> None) raw_df) df"
    unfolding dropna_def [symmetric]
    by (subst df) (simp only: list_all2_map2 list_all2_same, use row in blast)
  show "\<forall>r' \<in> set df. Company_Name r' \<noteq> Some '''' \<and> Standardized_Category r' \<noteq> Some ''''"
    if filled: "\<forall>r \<in> set raw_df. Company_Name r \<noteq> Some '''' \<and> Standardized_Category r \<noteq> Some ''''"
  proof
    fix r' assume "r' \<in> set df"
    then obtain r where r: "r \<in> set (dropna raw_df)" and r': "r' = ?out r"
      by (subst (asm) df) auto
    from r filled have name: "Company_Name r \<noteq> Some ''''" and cat: "Standardized_Category r \<noteq> Some ''''"
      by (simp_all add: in_dropna)
    from r obtain s where s: "Standardized_Category r = Some s"
      by (auto simp: in_dropna)
    with cat have "replace category_mapping (Standardized_Category r) \<noteq> Some ''''"
      by (simp add: replace_category_mapping)
    with name show "Company_Name r' \<noteq> Some '''' \<and> Standardized_Category r' \<noteq> Some ''''"
      by (simp add: r' clean_row_def)
  qed
next
  assume "\<forall>r \<in> set raw_df. Company_Name r \<noteq> None \<and> Standardized_Category r \<noteq> None \<longrightarrow>
          plain (to_numeric N (Review_Count r))"
  then have "\<forall>r \<in> set (dropna raw_df). plain (to_numeric N (Review_Count r))"
    by (simp add: in_dropna)
  then show "\<exists>df. normalize N raw_df = Inr df"
    by (rule normalize_returns)
next
  fix q
  from toward_zero_bounds [of q]
  show "\<bar>rat_of_int (toward_zero q)\<bar> \<le> \<bar>q\<bar>"
    and "\<bar>q\<bar> < \<bar>rat_of_int (toward_zero q)\<bar> + 1"
    and "(0 \<le> toward_zero q) = (- 1 < q)"
    by simp_all
qed

text \<open>
  C1, witness: of three raw rows the one without a company name is dropped, the
  count \<open>7 / 2\<close> becomes 3 and the text \<^verbatim>\<open>many\<close> becomes 0.
\<close>

theorem normalize_output_witness:
  "normalize \<lparr>parse = Map.empty, machine = (\<lambda>vs v. 0), machine_error = Map.empty\<rparr>
     [\<lparr>Company_Name = None, Company_Type = None, Company_Location = None,
        Standardized_Category = Some ''Hostility'', Review_Count = Num (Py_int 4)\<rparr>,
      \<lparr>Company_Name = Some ''A'', Company_Type = None, Company_Location = None,
        Standardized_Category = Some ''Others'', Review_Count = Num (Py_float (7 / 2))\<rparr>,
      \<lparr>Company_Name = Some ''B'', Company_Type = None, Company_Location = None,
        Standardized_Category = Some ''Others'', Review_Count = Str ''many''\<rparr>]
   = Inr [\<lparr>Company_Name = Some ''A'', Company_Type = None, Company_Location = None,
        Standardized_Category = Some ''Others'', Review_Count = 3\<rparr>,
      \<lparr>Company_Name = Some ''B'', Company_Type = None, Company_Location = None,
        Standardized_Category = Some ''Others'', Review_Count = 0\<rparr>]
   \<and> length (filter (\<lambda>r. Company_Name r \<noteq> None \<and> Standardized_Category r \<noteq> None)
     [\<lparr>Company_Name = None, Company_Type = None, Company_Location = None,
        Standardized_Category = Some ''Hostility'', Review_Count = Num (Py_int 4)\<rparr>,
      \<lparr>Company_Name = Some ''A'', Company_Type = None, Company_Location = None,
        Standardized_Category = Some ''Others'', Review_Count = Num (Py_float (7 / 2))\<rparr>,
      \<lparr>Company_Name = Some ''B'', Company_Type = None, Company_Location = None,
        Standardized_Category = Some ''Others'', Review_Count = Str ''many''\<rparr>]) = 2"
proof -
  let ?N = "\<lparr>parse = Map.empty, machine = (\<lambda>vs v. 0), machine_error = Map.empty\<rparr>"
  let ?raw = "[\<lparr>Company_Name = None, Company_Type = None, Company_Location = None,
        Standardized_Category = Some ''Hostility'', Review_Count = Num (Py_int 4)\<rparr>,
      \<lparr>Company_Name = Some ''A'', Company_Type = None, Company_Location = None,
        Standardized_Category = Some ''Others'', Review_Count = Num (Py_float (7 / 2))\<rparr>,
      \<lparr>Company_Name = Some ''B'', Company_Type = None, Company_Location = None,
        Standardized_Category = Some ''Others'', Review_Count = Str ''many''\<rparr>]"
  let ?df = "[\<lparr>Company_Name = Some ''A'', Company_Type = None, Company_Location = None,
        Standardized_Category = Some ''Others'', Review_Count = 3 :: int64\<rparr>,
      \<lparr>Company_Name = Some ''B'', Company_Type = None, Company_Location = None,
        Standardized_Category = Some ''Others'', Review_Count = 0\<rparr>]"
  have run: "normalize ?N ?raw = Inr ?df"
    by code_simp
  from conjunct1 [OF mp [OF conjunct1 [OF normalize_output] run]]
  have "length (filter (\<lambda>r. Company_Name r \<noteq> None \<and> Standardized_Category r \<noteq> None) ?raw)
      = length ?df"
    by (rule list_all2_lengthD)
  then have "length (filter (\<lambda>r. Company_Name r \<noteq> None \<and> Standardized_Category r \<noteq> None) ?raw) = 2"
    by simp
  with run show ?thesis by (rule conjI)
qed

text \<open>
  C1, counterexample: a row with name and category and the raw count \<open>- 5\<close> is kept
  with the count \<open>- 5\<close>.
\<close>

theorem normalize_keeps_negative_count:
  "normalize \<lparr>parse = Map.empty, machine = (\<lambda>vs v. 0), machine_error = Map.empty\<rparr>
     [\<lparr>Company_Name = Some ''A'', Company_Type = Some ''Government Hospital'',
        Company_Location = Some ''Lagos'', Standardized_Category = Some ''Hostility'',
        Review_Count = Num (Py_int (- 5))\<rparr>]
   = Inr [\<lparr>Company_Name = Some ''A'', Company_Type = Some ''Government Hospital'',
        Company_Location = Some ''Lagos'', Standardized_Category = Some ''Hostility'',
        Review_Count = - 5\<rparr>]
   \<and> sint (- 5 :: int64) = - 5"
  by code_simp

text \<open>
  C3, as the code has it. When the cleaning returns, row by row of the kept rows:
  a raw category that is a key of \<open>category_mapping\<close> or one of the eight names
  of \<open>available_categories\<close> becomes one of the eight names; every other raw
  category stays as it is, so nothing is moved to \<^verbatim>\<open>Others\<close>. The cleaning
  returns whenever every kept raw count is a missing cell, a text that is no number,
  an integer of at most \<open>2 ^ 53\<close> in absolute value or a float whose integer part
  is in the range of \<^verbatim>\<open>int64\<close>.
\<close>

theorem normalize_category:
  "(normalize N raw_df = Inr df \<longrightarrow>
      list_all2
        (\<lambda>r r'. \<exists>s. Standardized_Category r = Some s \<and>
           (if s \<in> fst ` set category_mapping \<or> s \<in> set available_categories
            then \<exists>c \<in> set available_categories. Standardized_Category r' = Some c
            else Standardized_Category r' = Some s))
        (dropna raw_df) df)
   \<and> ((\<forall>r \<in> set (dropna raw_df). plain (to_numeric N (Review_Count r))) \<longrightarrow>
       (\<exists>df. normalize N raw_df = Inr df))"
proof (intro conjI impI)
  assume ok: "normalize N raw_df = Inr df"
  let ?vs = "map (\<lambda>r. to_numeric N (Review_Count r)) (dropna raw_df)"
  let ?out = "\<lambda>r. clean_row r (astype_int N ?vs (to_numeric N (Review_Count r)))"
  note df = normalize_Inr(2) [OF ok]
  have "\<exists>s. Standardized_Category r = Some s \<and>
        (if s \<in> fst ` set category_mapping \<or> s \<in> set available_categories
         then \<exists>c \<in> set available_categories. Standardized_Category (?out r) = Some c
         else Standardized_Category (?out r) = Some s)"
    if "r \<in> set (dropna raw_df)" for r
  proof -
    from that obtain s where s: "Standardized_Category r = Some s"
      by (auto simp: in_dropna)
    have "Standardized_Category (?out r) = replace category_mapping (Some s)"
      by (simp add: clean_row_def s)
    moreover have "\<exists>c \<in> set available_categories. replace category_mapping (Some s) = Some c"
      if "s \<in> fst ` set category_mapping \<or> s \<in> set available_categories"
      using that unfolding replace_category_mapping
      by (auto simp: category_mapping_def available_categories_def)
    moreover have "replace category_mapping (Some s) = Some s"
      if "\<not> (s \<in> fst ` set category_mapping \<or> s \<in> set available_categories)"
      using that unfolding replace_category_mapping
      by (auto simp: category_mapping_def)
    ultimately show ?thesis using s by simp
  qed
  then show "list_all2
        (\<lambda>r r'. \<exists>s. Standardized_Category r = Some s \<and>
           (if s \<in> fst ` set category_mapping \<or> s \<in> set available_categories
            then \<exists>c \<in> set available_categories. Standardized_Category r' = Some c
            else Standardized_Category r' = Some s))
        (dropna raw_df) df"
    by (subst df) (simp only: list_all2_map2 list_all2_same, blast)
next
  assume "\<forall>r \<in> set (dropna raw_df). plain (to_numeric N (Review_Count r))"
  then show "\<exists>df. normalize N raw_df = Inr df"
    by (rule normalize_returns)
qed

text \<open>
  C3, witness: the synonym \<^verbatim>\<open>Unavailability of Specialist\<close> gets its plural.
\<close>

theorem normalize_category_witness:
  "normalize \<lparr>parse = Map.empty, machine = (\<lambda>vs v. 0), machine_error = Map.empty\<rparr>
     [\<lparr>Company_Name = Some ''A'', Company_Type = None, Company_Location = None,
        Standardized_Category = Some ''Unavailability of Specialist'', Review_Count = NaN\<rparr>]
   = Inr [\<lparr>Company_Name = Some ''A'', Company_Type = None, Company_Location = None,
        Standardized_Category = Some ''Unavailability of Specialists'', Review_Count = 0\<rparr>]
   \<and> length (dropna
     [\<lparr>Company_Name = Some ''A'', Company_Type = None, Company_Location = None,
        Standardized_Category = Some ''Unavailability of Specialist'', Review_Count = NaN\<rparr>]) = 1"
proof -
  let ?N = "\<lparr>parse = Map.empty, machine = (\<lambda>vs v. 0), machine_error = Map.empty\<rparr>"
  let ?raw = "[\<lparr>Company_Name = Some ''A'', Company_Type = None, Company_Location = None,
        Standardized_Category = Some ''Unavailability of Specialist'', Review_Count = NaN\<rparr>]"
  let ?df = "[\<lparr>Company_Name = Some ''A'', Company_Type = None, Company_Location = None,
        Standardized_Category = Some ''Unavailability of Specialists'', Review_Count = 0 :: int64\<rparr>]"
  have run: "normalize ?N ?raw = Inr ?df"
    by code_simp
  from mp [OF conjunct1 [OF normalize_category] run]
  have "length (dropna ?raw) = length ?df"
    by (rule list_all2_lengthD)
  then have "length (dropna ?raw) = 1"
    by simp
  with run show ?thesis by (rule conjI)
qed

text \<open>
  C3, counterexample: \<^verbatim>\<open>Billing Errors\<close> is none of the eight names and is still
  the category of the cleaned row.
\<close>

theorem normalize_keeps_unknown_category:
  "normalize \<lparr>parse = Map.empty, machine = (\<lambda>vs v. 0), machine_error = Map.empty\<rparr>
     [\<lparr>Company_Name = Some ''A'', Company_Type = Some ''Government Hospital'',
        Company_Location = Some ''Lagos'', Standardized_Category = Some ''Billing Errors'',
        Review_Count = Num (Py_int 3)\<rparr>]
   = Inr [\<lparr>Company_Name = Some ''A'', Company_Type = Some ''Government Hospital'',
        Company_Location = Some ''Lagos'', Standardized_Category = Some ''Billing Errors'',
        Review_Count = 3\<rparr>]
   \<and> ''Billing Errors'' \<notin> set available_categories"
  by code_simp

lemma review_counts_int64:
  "review_counts N (map (\<lambda>w. Num (Py_int (sint w))) ws) = Inr ws"
proof -
  let ?vs = "map (\<lambda>w. Some (Py_int (sint (w :: int64)))) ws"
  have vs: "map (to_numeric N) (map (\<lambda>w. Num (Py_int (sint w))) ws) = ?vs"
    by simp
  have col: "int64_column ?vs"
    by (auto simp: int64_column_def in_int64_sint)
  then have "\<forall>v \<in> set ?vs. exact ?vs v"
    by auto
  moreover have "Some Py_inf \<notin> set ?vs"
    by auto
  moreover have "map (astype_int N ?vs) ?vs = ws"
    using col by (simp add: o_def map_idI)
  ultimately show ?thesis
    unfolding review_counts_def vs Let_def by simp
qed

text \<open>
  C8. A cleaned frame, read again as a raw frame and cleaned again, is returned as
  it is: the second pass drops no row, finds an \<^verbatim>\<open>int64\<close> column that it leaves
  alone, and both dictionaries map their own values to themselves. The first pass
  returns whenever every kept raw count is a missing cell, a text that is no number,
  an integer of at most \<open>2 ^ 53\<close> in absolute value or a float whose integer part
  is in the range of \<^verbatim>\<open>int64\<close>.
\<close>

theorem normalize_idempotent:
  "(normalize N raw_df = Inr df \<longrightarrow> normalize N (map as_raw df) = Inr df)
   \<and> ((\<forall>r \<in> set (dropna raw_df). plain (to_numeric N (Review_Count r))) \<longrightarrow>
       (\<exists>df. normalize N raw_df = Inr df))"
proof (intro conjI impI)
  assume "\<forall>r \<in> set (dropna raw_df). plain (to_numeric N (Review_Count r))"
  then show "\<exists>df. normalize N raw_df = Inr df"
    by (rule normalize_returns)
next
  assume ok: "normalize N raw_df = Inr df"
  let ?vs = "map (\<lambda>r. to_numeric N (Review_Count r)) (dropna raw_df)"
  let ?out = "\<lambda>r. clean_row r (astype_int N ?vs (to_numeric N (Review_Count r)))"
  note df = normalize_Inr(2) [OF ok]
  have fix_type: "replace company_type_mapping (replace company_type_mapping v)
      = replace company_type_mapping v" for v
    by (cases v) (simp_all add: replace_def company_type_mapping_def)
  have fix_cat: "replace category_mapping (replace category_mapping v)
      = replace category_mapping v" for v
    by (cases v) (simp_all add: replace_def category_mapping_def)
  have present: "Company_Name r' \<noteq> None \<and> Standardized_Category r' \<noteq> None"
    if "r' \<in> set df" for r'
  proof -
    from that obtain r where "r \<in> set (dropna raw_df)" and "r' = ?out r"
      by (subst (asm) df) auto
    then show ?thesis
      by (simp add: in_dropna clean_row_def)
  qed
  then have kept: "dropna (map as_raw df) = map as_raw df"
    unfolding dropna_def filter_id_conv by (auto simp: as_raw_def)
  have counts: "review_counts N (map Review_Count (map as_raw df)) = Inr (map Review_Count df)"
    using review_counts_int64 [of N "map Review_Count df"]
    by (simp add: o_def as_raw_def)
  have again: "clean_row (as_raw r') (Review_Count r') = r'" if "r' \<in> set df" for r'
  proof -
    from that obtain r where "r' = ?out r"
      by (subst (asm) df) auto
    then show ?thesis
      by (simp add: clean_row_def as_raw_def fix_type fix_cat)
  qed
  have "map (\<lambda>(r, w). clean_row r w) (zip (map as_raw df) (map Review_Count df))
      = map (\<lambda>r'. clean_row (as_raw r') (Review_Count r')) df"
    by (simp add: zip_map_map zip_same_conv_map o_def)
  also have "\<dots> = df"
    using again by (simp add: map_idI)
  finally show "normalize N (map as_raw df) = Inr df"
    unfolding normalize_def kept Let_def counts by simp
qed

text \<open>
  C8, witness: one row with both synonyms and a count that is no number.
\<close>

theorem normalize_idempotent_witness:
  "normalize \<lparr>parse = Map.empty, machine = (\<lambda>vs v. 0), machine_error = Map.empty\<rparr>
     [\<lparr>Company_Name = Some ''A'', Company_Type = Some ''Modern/High-Class Private Hospital'',
        Company_Location = None, Standardized_Category = Some ''Unavailability of Specialist'',
        Review_Count = Str ''many''\<rparr>]
   = Inr [\<lparr>Company_Name = Some ''A'', Company_Type = Some ''High-Class Private Hospital'',
        Company_Location = None, Standardized_Category = Some ''Unavailability of Specialists'',
        Review_Count = 0\<rparr>]
   \<and> normalize \<lparr>parse = Map.empty, machine = (\<lambda>vs v. 0), machine_error = Map.empty\<rparr>
     (map as_raw [\<lparr>Company_Name = Some ''A'', Company_Type = Some ''High-Class Private Hospital'',
        Company_Location = None, Standardized_Category = Some ''Unavailability of Specialists'',
        Review_Count = 0\<rparr>])
   = Inr [\<lparr>Company_Name = Some ''A'', Company_Type = Some ''High-Class Private Hospital'',
        Company_Location = None, Standardized_Category = Some ''Unavailability of Specialists'',
        Review_Count = 0\<rparr>]"
proof -
  let ?N = "\<lparr>parse = Map.empty, machine = (\<lambda>vs v. 0), machine_error = Map.empty\<rparr>"
  have run: "normalize ?N
     [\<lparr>Company_Name = Some ''A'', Company_Type = Some ''Modern/High-Class Private Hospital'',
        Company_Location = None, Standardized_Category = Some ''Unavailability of Specialist'',
        Review_Count = Str ''many''\<rparr>]
   = Inr [\<lparr>Company_Name = Some ''A'', Company_Type = Some ''High-Class Private Hospital'',
        Company_Location = None, Standardized_Category = Some ''Unavailability of Specialists'',
        Review_Count = 0\<rparr>]"
    by code_simp
  from run mp [OF conjunct1 [OF normalize_idempotent] run] show ?thesis
    by (rule conjI)
qed

section \<open>Groups and their sums\<close>

lemma set_map_filter_key:
  "set (List.map_filter key df) = {k. \<exists>r \<in> set df. key r = Some k}"
proof -
  have "k \<in> set (List.map_filter key df) \<longleftrightarrow> (\<exists>r \<in> set df. key r = Some k)" for k
    by (induction df) (auto simp: List.map_filter_simps split: option.splits)
  then show ?thesis by blast
qed

lemma groupby_keys:
  "map fst (groupby key df) = sort (remdups (List.map_filter key df))"
  by (simp add: groupby_def o_def)

lemma set_groupby_keys:
  "set (sort (remdups (List.map_filter key df))) = {k. \<exists>r \<in> set df. key r = Some k}"
  by (simp add: set_map_filter_key)

lemma distinct_groupby_keys: "distinct (sort (remdups (List.map_filter key df)))"
  by simp

lemma sum_list_single_key:
  "distinct ks \<Longrightarrow>
   sum_list (map (\<lambda>k'. if k = k' then a else 0) ks) = (if k \<in> set ks then a else (0::'a::comm_monoid_add))"
  by (induction ks) auto

lemma sum_over_groups:
  fixes f :: "'r \<Rightarrow> 'a::comm_monoid_add"
  assumes "distinct ks" and "\<forall>r \<in> set df. \<forall>k. key r = Some k \<longrightarrow> k \<in> set ks"
  shows "sum_list (map (\<lambda>k. sum_list (map f (filter (\<lambda>r. key r = Some k) df))) ks)
       = sum_list (map f (filter (\<lambda>r. key r \<noteq> None) df))"
  using assms(2)
proof (induction df)
  case Nil
  show ?case by simp
next
  case (Cons r df)
  have split: "sum_list (map f (filter (\<lambda>r. key r = Some k) (r # df)))
      = (if key r = Some k then f r else 0) + sum_list (map f (filter (\<lambda>r. key r = Some k) df))" for k
    by simp
  have first: "sum_list (map (\<lambda>k. if key r = Some k then f r else 0) ks)
      = (if key r \<noteq> None then f r else 0)"
  proof (cases "key r")
    case None
    then show ?thesis by simp
  next
    case (Some k)
    with Cons.prems have "k \<in> set ks" by simp
    with sum_list_single_key [OF assms(1), of k "f r"] Some show ?thesis by simp
  qed
  from Cons.prems have "\<forall>r \<in> set df. \<forall>k. key r = Some k \<longrightarrow> k \<in> set ks" by simp
  from Cons.IH [OF this] first show ?case
    unfolding split by (simp add: sum_list_addf)
qed

lemma eq_cell_Some [simp]: "eq_cell a (Some c) \<longleftrightarrow> a = Some c"
  by (cases a) (auto simp: eq_cell_def)

lemma eq_cell_None [simp]: "\<not> eq_cell a None"
  by (cases a) (auto simp: eq_cell_def)

lemma groupby_Nil [simp]: "groupby key [] = []"
  by (simp add: groupby_def List.map_filter_def)

lemma total_reviews_groups:
  "total_reviews (update_category_pie viz_df sel)
   = sum_list (map Review_Count
       (filter (\<lambda>r. Company_Type r \<noteq> None) (filter (\<lambda>r. eq_cell (Standardized_Category r) sel) viz_df)))"
proof -
  let ?data = "filter (\<lambda>r. eq_cell (Standardized_Category r) sel) viz_df"
  let ?ks = "sort (remdups (List.map_filter Company_Type ?data))"
  have "total_reviews (update_category_pie viz_df sel)
      = sum_list (map (\<lambda>k. sum_list (map Review_Count (filter (\<lambda>r. Company_Type r = Some k) ?data))) ?ks)"
    by (simp add: update_category_pie_def Let_def groupby_sum_def groupby_def o_def
        del: filter_filter)
  also have "\<dots> = sum_list (map Review_Count (filter (\<lambda>r. Company_Type r \<noteq> None) ?data))"
    by (rule sum_over_groups) (simp_all add: set_map_filter_key, blast)
  finally show ?thesis .
qed

lemma sum_list_sint:
  "sum_list ws = (word_of_int (sum_list (map sint ws)) :: int64)"
  by (induction ws) simp_all

lemma sint_sum_list:
  "in_int64 (sum_list (map sint ws)) \<Longrightarrow> sint (sum_list ws :: int64) = sum_list (map sint ws)"
  by (subst sum_list_sint) (rule sint_word_of_int)

section \<open>The two tables\<close>

subsection \<open>The frame after unstack\<close>

lemma group_key_eq [simp]: "group_key r = Some (c, t) \<longleftrightarrow> in_cell c t r"
  by (auto simp: group_key_def in_cell_def split: option.splits)

lemma sort_remdups_unique:
  "set xs = set ys \<Longrightarrow> sort (remdups xs) = sort (remdups ys)"
  by (rule sorted_distinct_set_unique) simp_all

lemma map_of_tabulate:
  "map_of (map (\<lambda>k. (k, f k)) ks) k = (if k \<in> set ks then Some (f k) else None)"
  by (induction ks) auto

lemma groupby_agg:
  "map (\<lambda>(k, g). (k, agg g)) (groupby key df)
     = map (\<lambda>k. (k, agg (filter (\<lambda>r. key r = Some k) df))) (sort (remdups (List.map_filter key df)))"
  by (simp add: groupby_def o_def)

lemma unstack_groups:
  assumes "agg [] = 0"
  shows "unstack 0 (map (\<lambda>(k, g). (k, agg g)) (groupby group_key df))
     = map (\<lambda>c. (c, map (\<lambda>t. (t, agg (filter (in_cell c t) df)))
                      (sort (remdups (map snd (List.map_filter group_key df))))))
         (sort (remdups (map fst (List.map_filter group_key df))))"
proof -
  let ?K = "List.map_filter group_key df"
  let ?ks = "sort (remdups ?K)"
  let ?s = "map (\<lambda>k. (k, agg (filter (\<lambda>r. group_key r = Some k) df))) ?ks"
  have index: "sort (remdups (map (\<lambda>(k, v). fst k) ?s)) = sort (remdups (map fst ?K))"
    by (rule sort_remdups_unique) (simp add: o_def)
  have cols: "sort (remdups (map (\<lambda>(k, v). snd k) ?s)) = sort (remdups (map snd ?K))"
    by (rule sort_remdups_unique) (simp add: o_def)
  have cell: "(case map_of ?s (c, t) of None \<Rightarrow> 0 | Some v \<Rightarrow> v) = agg (filter (in_cell c t) df)"
    for c t
  proof (cases "(c, t) \<in> set ?ks")
    case True
    then show ?thesis by (simp add: map_of_tabulate)
  next
    case False
    then have "\<forall>r \<in> set df. \<not> in_cell c t r"
      by (auto simp: set_map_filter_key)
    then have "filter (in_cell c t) df = []"
      by (simp add: filter_empty_conv)
    with False assms show ?thesis by (simp add: map_of_tabulate)
  qed
  show ?thesis
    unfolding groupby_agg unstack_def Let_def index cols cell ..
qed

subsection \<open>Lines 58 to 65 on a rectangular frame\<close>

lemma columns_tabulate:
  "columns (map (\<lambda>c. (c, map (\<lambda>t. (t, v c t)) cols)) index) = (if index = [] then [] else cols)"
  by (cases index) (simp_all add: columns_def o_def)

lemma ensure_column_tabulate:
  assumes "ct \<notin> set cols \<Longrightarrow> \<forall>c \<in> set index. v c ct = 0"
  shows "ensure_column ct (map (\<lambda>c. (c, map (\<lambda>t. (t, v c t)) cols)) index)
     = map (\<lambda>c. (c, map (\<lambda>t. (t, v c t)) (if ct \<in> set cols then cols else cols @ [ct]))) index"
proof (cases "index = []")
  case True
  then show ?thesis by (simp add: ensure_column_def)
next
  case False
  show ?thesis
  proof (cases "ct \<in> set cols")
    case True
    with False show ?thesis by (simp add: ensure_column_def columns_tabulate)
  next
    case False
    with assms have "\<forall>c \<in> set index. v c ct = 0" by simp
    with False \<open>index \<noteq> []\<close> show ?thesis
      by (simp add: ensure_column_def columns_tabulate)
  qed
qed

lemma getitems_tabulate:
  "set ks \<subseteq> set cols \<Longrightarrow> getitems (map (\<lambda>t. (t, f t)) cols) ks = Inr (map f ks)"
  by (induction ks) (simp_all add: map_of_tabulate)

lemma add_total_rows:
  assumes "\<forall>c \<in> set index. getitems (cells c) cts = Inr (vs c)"
  shows "add_total cts (map (\<lambda>c. (c, cells c)) index)
     = Inr (map (\<lambda>c. (c, AList.update ''Total'' (sum_list (vs c)) (cells c))) index)"
  using assms by (induction index) simp_all

lemma fold_ensure_column_tabulate:
  assumes "\<forall>t. t \<notin> set cols \<longrightarrow> (\<forall>c \<in> set index. v c t = 0)"
  shows "\<exists>cols'. set cols' = set cols \<union> set company_types
      \<and> fold ensure_column company_types (map (\<lambda>c. (c, map (\<lambda>t. (t, v c t)) cols)) index)
        = map (\<lambda>c. (c, map (\<lambda>t. (t, v c t)) cols')) index"
proof -
  let ?g = "''Government Hospital''" and ?s = "''Small Private Hospital''"
    and ?h = "''High-Class Private Hospital''"
  define cols1 where "cols1 = (if ?g \<in> set cols then cols else cols @ [?g])"
  define cols2 where "cols2 = (if ?s \<in> set cols1 then cols1 else cols1 @ [?s])"
  define cols3 where "cols3 = (if ?h \<in> set cols2 then cols2 else cols2 @ [?h])"
  have zero: "t \<notin> set cols \<Longrightarrow> \<forall>c \<in> set index. v c t = 0" for t
    using assms by simp
  have 1: "ensure_column ?g (map (\<lambda>c. (c, map (\<lambda>t. (t, v c t)) cols)) index)
      = map (\<lambda>c. (c, map (\<lambda>t. (t, v c t)) cols1)) index"
    unfolding cols1_def by (rule ensure_column_tabulate) (rule zero)
  have "set cols \<subseteq> set cols1" by (auto simp: cols1_def)
  then have 2: "ensure_column ?s (map (\<lambda>c. (c, map (\<lambda>t. (t, v c t)) cols1)) index)
      = map (\<lambda>c. (c, map (\<lambda>t. (t, v c t)) cols2)) index"
    unfolding cols2_def by (intro ensure_column_tabulate zero) blast
  have "set cols \<subseteq> set cols2" by (auto simp: cols1_def cols2_def)
  then have 3: "ensure_column ?h (map (\<lambda>c. (c, map (\<lambda>t. (t, v c t)) cols2)) index)
      = map (\<lambda>c. (c, map (\<lambda>t. (t, v c t)) cols3)) index"
    unfolding cols3_def by (intro ensure_column_tabulate zero) blast
  have "set cols3 = set cols \<union> set company_types"
    by (auto simp: cols1_def cols2_def cols3_def company_types_def)
  moreover have "fold ensure_column company_types (map (\<lambda>c. (c, map (\<lambda>t. (t, v c t)) cols)) index)
        = map (\<lambda>c. (c, map (\<lambda>t. (t, v c t)) cols3)) index"
    by (simp add: company_types_def 1 2 3)
  ultimately show ?thesis by blast
qed

lemma set_group_keys:
  "set (List.map_filter group_key df) = {(c, t). \<exists>r \<in> set df. in_cell c t r}"
  unfolding set_map_filter_key by auto

lemma set_group_categories:
  "set (sort (remdups (map fst (List.map_filter group_key df))))
     = {c. \<exists>t. \<exists>r \<in> set df. in_cell c t r}"
proof -
  have "fst ` {(c, t). \<exists>r \<in> set df. in_cell c t r} = {c. \<exists>t. \<exists>r \<in> set df. in_cell c t r}"
    by force
  then show ?thesis by (simp add: set_group_keys)
qed

lemma set_group_types:
  "set (sort (remdups (map snd (List.map_filter group_key df))))
     = {t. \<exists>c. \<exists>r \<in> set df. in_cell c t r}"
proof -
  have "snd ` {(c, t). \<exists>r \<in> set df. in_cell c t r} = {t. \<exists>c. \<exists>r \<in> set df. in_cell c t r}"
    by force
  then show ?thesis by (simp add: set_group_keys)
qed

lemma with_total_table:
  assumes agg: "agg [] = 0"
    and ok: "with_total (reset_index ''Standardized Category''
        (unstack 0 (map (\<lambda>(k, g). (k, agg g)) (groupby group_key df)))) = Inr w"
  shows "\<exists>cols'.
      set cols' = {t. \<exists>c. \<exists>r \<in> set df. in_cell c t r} \<union> set company_types
    \<and> w = map (\<lambda>c. (c, AList.update ''Total''
                (agg (filter (in_cell c ''Government Hospital'') df)
                 + agg (filter (in_cell c ''Small Private Hospital'') df)
                 + agg (filter (in_cell c ''High-Class Private Hospital'') df))
                (map (\<lambda>t. (t, agg (filter (in_cell c t) df))) cols')))
          (sort (remdups (map fst (List.map_filter group_key df))))"
proof -
  let ?index = "sort (remdups (map fst (List.map_filter group_key df)))"
  let ?cols = "sort (remdups (map snd (List.map_filter group_key df)))"
  let ?v = "\<lambda>c t. agg (filter (in_cell c t) df)"
  let ?w0 = "map (\<lambda>c. (c, map (\<lambda>t. (t, ?v c t)) ?cols)) ?index"
  have w0: "unstack 0 (map (\<lambda>(k, g). (k, agg g)) (groupby group_key df)) = ?w0"
    using agg by (rule unstack_groups)
  from ok have ok': "add_total company_types (fold ensure_column company_types ?w0) = Inr w"
    unfolding w0 with_total_def reset_index_def by (simp split: if_splits)
  have zero: "\<forall>t. t \<notin> set ?cols \<longrightarrow> (\<forall>c \<in> set ?index. ?v c t = 0)"
  proof (intro allI impI ballI)
    fix t c assume "t \<notin> set ?cols"
    then have "\<forall>r \<in> set df. \<not> in_cell c t r"
      unfolding set_group_types by blast
    then have "filter (in_cell c t) df = []"
      by (simp add: filter_empty_conv)
    with agg show "?v c t = 0" by simp
  qed
  from fold_ensure_column_tabulate [of ?cols ?index ?v, OF zero]
  obtain cols' where cols': "set cols' = set ?cols \<union> set company_types"
    and ensured: "fold ensure_column company_types ?w0
        = map (\<lambda>c. (c, map (\<lambda>t. (t, ?v c t)) cols')) ?index"
    by blast
  have "set company_types \<subseteq> set cols'"
    using cols' by blast
  then have items: "\<forall>c \<in> set ?index.
      getitems (map (\<lambda>t. (t, ?v c t)) cols') company_types = Inr (map (?v c) company_types)"
    by (simp add: getitems_tabulate)
  have "add_total company_types (map (\<lambda>c. (c, map (\<lambda>t. (t, ?v c t)) cols')) ?index)
      = Inr (map (\<lambda>c. (c, AList.update ''Total'' (sum_list (map (?v c) company_types))
              (map (\<lambda>t. (t, ?v c t)) cols'))) ?index)"
    using items by (rule add_total_rows)
  with ok' ensured have "w = map (\<lambda>c. (c, AList.update ''Total'' (sum_list (map (?v c) company_types))
              (map (\<lambda>t. (t, ?v c t)) cols'))) ?index"
    by simp
  then have "w = map (\<lambda>c. (c, AList.update ''Total''
                (?v c ''Government Hospital'' + ?v c ''Small Private Hospital''
                 + ?v c ''High-Class Private Hospital'')
                (map (\<lambda>t. (t, ?v c t)) cols'))) ?index"
    by (simp add: company_types_def add.assoc)
  with cols' show ?thesis
    unfolding set_group_types by blast
qed

lemma with_total_returns:
  assumes agg: "agg [] = 0"
    and free: "\<forall>r \<in> set df. Company_Type r \<noteq> Some ''Standardized Category''"
  shows "\<exists>w. with_total (reset_index ''Standardized Category''
        (unstack 0 (map (\<lambda>(k, g). (k, agg g)) (groupby group_key df)))) = Inr w"
proof -
  let ?index = "sort (remdups (map fst (List.map_filter group_key df)))"
  let ?cols = "sort (remdups (map snd (List.map_filter group_key df)))"
  let ?v = "\<lambda>c t. agg (filter (in_cell c t) df)"
  let ?w0 = "map (\<lambda>c. (c, map (\<lambda>t. (t, ?v c t)) ?cols)) ?index"
  have w0: "unstack 0 (map (\<lambda>(k, g). (k, agg g)) (groupby group_key df)) = ?w0"
    using agg by (rule unstack_groups)
  from free have "''Standardized Category'' \<notin> set ?cols"
    unfolding set_group_types by (auto simp: in_cell_def)
  then have no_clash: "''Standardized Category'' \<notin> set (columns ?w0)"
    by (simp add: columns_tabulate)
  have zero: "\<forall>t. t \<notin> set ?cols \<longrightarrow> (\<forall>c \<in> set ?index. ?v c t = 0)"
  proof (intro allI impI ballI)
    fix t c assume "t \<notin> set ?cols"
    then have "\<forall>r \<in> set df. \<not> in_cell c t r"
      unfolding set_group_types by blast
    then have "filter (in_cell c t) df = []"
      by (simp add: filter_empty_conv)
    with agg show "?v c t = 0" by simp
  qed
  from fold_ensure_column_tabulate [of ?cols ?index ?v, OF zero]
  obtain cols' where cols': "set cols' = set ?cols \<union> set company_types"
    and ensured: "fold ensure_column company_types ?w0
        = map (\<lambda>c. (c, map (\<lambda>t. (t, ?v c t)) cols')) ?index"
    by blast
  have "set company_types \<subseteq> set cols'"
    using cols' by blast
  then have items: "\<forall>c \<in> set ?index.
      getitems (map (\<lambda>t. (t, ?v c t)) cols') company_types = Inr (map (?v c) company_types)"
    by (simp add: getitems_tabulate)
  have "add_total company_types (map (\<lambda>c. (c, map (\<lambda>t. (t, ?v c t)) cols')) ?index)
      = Inr (map (\<lambda>c. (c, AList.update ''Total'' (sum_list (map (?v c) company_types))
              (map (\<lambda>t. (t, ?v c t)) cols'))) ?index)"
    using items by (rule add_total_rows)
  then show ?thesis
    unfolding w0 with_total_def reset_index_def using no_clash ensured by simp
qed

subsection \<open>The rows of the tables\<close>

lemma company_counts_table:
  assumes "company_counts df = Inr w"
  shows "\<exists>cols'.
      set cols' = {t. \<exists>c. \<exists>r \<in> set df. in_cell c t r} \<union> set company_types
    \<and> w = map (\<lambda>c. (c, AList.update ''Total''
                (records_in_cell df c ''Government Hospital''
                 + records_in_cell df c ''Small Private Hospital''
                 + records_in_cell df c ''High-Class Private Hospital'')
                (map (\<lambda>t. (t, records_in_cell df c t)) cols')))
          (sort (remdups (map fst (List.map_filter group_key df))))"
proof -
  have "with_total (reset_index ''Standardized Category''
        (unstack 0 (map (\<lambda>(k, g). (k, int (length g))) (groupby group_key df)))) = Inr w"
    using assms by (simp add: company_counts_def groupby_size_def)
  from with_total_table [of "\<lambda>g. int (length g)", OF _ this] show ?thesis
    by (simp add: records_in_cell_def)
qed

lemma reviews_per_type_table:
  assumes "reviews_per_type df = Inr w"
  shows "map fst w = sort (remdups (map fst (List.map_filter group_key df)))"
proof -
  have "with_total (reset_index ''Standardized Category''
        (unstack 0 (map (\<lambda>(k, g). (k, sum_list (map Review_Count g))) (groupby group_key df))))
      = Inr w"
    using assms by (simp add: reviews_per_type_def groupby_sum_def)
  from with_total_table [of "\<lambda>g. sum_list (map Review_Count g)", OF _ this] show ?thesis
    by (auto simp: o_def)
qed

lemma company_counts_labels:
  assumes "company_counts df = Inr w"
  shows "map fst w = sort (remdups (map fst (List.map_filter group_key df)))"
  using company_counts_table [OF assms] by (auto simp: o_def)

lemma company_counts_returns:
  assumes "\<forall>r \<in> set df. Company_Type r \<noteq> Some ''Standardized Category''"
  shows "\<exists>w. company_counts df = Inr w"
  using with_total_returns [of "\<lambda>g. int (length g)" df, OF _ assms]
  by (simp add: company_counts_def groupby_size_def)

lemma reviews_per_type_returns:
  assumes "\<forall>r \<in> set df. Company_Type r \<noteq> Some ''Standardized Category''"
  shows "\<exists>w. reviews_per_type df = Inr w"
  using with_total_returns [of "\<lambda>g. sum_list (map Review_Count g)" df, OF _ assms]
  by (simp add: reviews_per_type_def groupby_sum_def)

lemma sorted_distinct_labels:
  "sorted_wrt (<) (sort (remdups xs))"
  by (simp add: strict_sorted_iff)

text \<open>
  C2, as the code has it. Unless a record has the company type
  \<^verbatim>\<open>Standardized Category\<close>, whose column would clash with the label column, both
  tables are built. A table that is built, the company table as well as the review
  table, has one row for each category that some record with a company type has,
  and no other row; the rows come in ascending order of the category name, each
  category once. A category of the fixed list without such a record has no row.
\<close>

theorem table_rows_are_present_categories:
  "((\<forall>r \<in> set df. Company_Type r \<noteq> Some ''Standardized Category'') \<longrightarrow>
      (\<exists>w. company_counts df = Inr w) \<and> (\<exists>w. reviews_per_type df = Inr w))
   \<and> (company_counts df = Inr w \<longrightarrow>
      sorted_wrt (<) (map fst w)
      \<and> set (map fst w) = {c. \<exists>t. \<exists>r \<in> set df. in_cell c t r})
   \<and> (reviews_per_type df = Inr w' \<longrightarrow>
      sorted_wrt (<) (map fst w')
      \<and> set (map fst w') = {c. \<exists>t. \<exists>r \<in> set df. in_cell c t r})"
proof (intro conjI impI)
  assume "\<forall>r \<in> set df. Company_Type r \<noteq> Some ''Standardized Category''"
  then show "\<exists>w. company_counts df = Inr w" and "\<exists>w. reviews_per_type df = Inr w"
    by (rule company_counts_returns, rule reviews_per_type_returns)
next
  assume "company_counts df = Inr w"
  then have labels: "map fst w = sort (remdups (map fst (List.map_filter group_key df)))"
    by (rule company_counts_labels)
  show "sorted_wrt (<) (map fst w)"
    unfolding labels by (rule sorted_distinct_labels)
  show "set (map fst w) = {c. \<exists>t. \<exists>r \<in> set df. in_cell c t r}"
    unfolding labels by (rule set_group_categories)
next
  assume "reviews_per_type df = Inr w'"
  then have labels: "map fst w' = sort (remdups (map fst (List.map_filter group_key df)))"
    by (rule reviews_per_type_table)
  show "sorted_wrt (<) (map fst w')"
    unfolding labels by (rule sorted_distinct_labels)
  show "set (map fst w') = {c. \<exists>t. \<exists>r \<in> set df. in_cell c t r}"
    unfolding labels by (rule set_group_categories)
qed

text \<open>
  C2, witness: records of \<^verbatim>\<open>Hostility\<close> and \<^verbatim>\<open>Expensive Costs\<close>, in this order,
  give the rows \<^verbatim>\<open>Expensive Costs\<close>, \<^verbatim>\<open>Hostility\<close>.
\<close>

theorem table_rows_are_present_categories_witness:
  "company_counts
     [\<lparr>Company_Name = Some ''A'', Company_Type = Some ''Government Hospital'',
        Company_Location = Some ''locA'', Standardized_Category = Some ''Hostility'',
        Review_Count = 10 :: int64\<rparr>,
      \<lparr>Company_Name = Some ''A'', Company_Type = Some ''Government Hospital'',
        Company_Location = Some ''locA'', Standardized_Category = Some ''Expensive Costs'',
        Review_Count = 2\<rparr>]
   = Inr [(''Expensive Costs'',
           [(''Government Hospital'', 1), (''Small Private Hospital'', 0),
            (''High-Class Private Hospital'', 0), (''Total'', 1)]),
          (''Hostility'',
           [(''Government Hospital'', 1), (''Small Private Hospital'', 0),
            (''High-Class Private Hospital'', 0), (''Total'', 1)])]
   \<and> reviews_per_type
     [\<lparr>Company_Name = Some ''A'', Company_Type = Some ''Government Hospital'',
        Company_Location = Some ''locA'', Standardized_Category = Some ''Hostility'',
        Review_Count = 10\<rparr>,
      \<lparr>Company_Name = Some ''A'', Company_Type = Some ''Government Hospital'',
        Company_Location = Some ''locA'', Standardized_Category = Some ''Expensive Costs'',
        Review_Count = 2\<rparr>]
   = Inr [(''Expensive Costs'',
           [(''Government Hospital'', 2), (''Small Private Hospital'', 0),
            (''High-Class Private Hospital'', 0), (''Total'', 2)]),
          (''Hostility'',
           [(''Government Hospital'', 10), (''Small Private Hospital'', 0),
            (''High-Class Private Hospital'', 0), (''Total'', 10)])]
   \<and> sorted_wrt (<) [''Expensive Costs'', ''Hostility'']"
proof -
  let ?df = "[\<lparr>Company_Name = Some ''A'', Company_Type = Some ''Government Hospital'',
        Company_Location = Some ''locA'', Standardized_Category = Some ''Hostility'',
        Review_Count = 10 :: int64\<rparr>,
      \<lparr>Company_Name = Some ''A'', Company_Type = Some ''Government Hospital'',
        Company_Location = Some ''locA'', Standardized_Category = Some ''Expensive Costs'',
        Review_Count = 2\<rparr>]"
  let ?w = "[(''Expensive Costs'',
           [(''Government Hospital'', 1 :: int), (''Small Private Hospital'', 0),
            (''High-Class Private Hospital'', 0), (''Total'', 1)]),
          (''Hostility'',
           [(''Government Hospital'', 1), (''Small Private Hospital'', 0),
            (''High-Class Private Hospital'', 0), (''Total'', 1)])]"
  let ?w' = "[(''Expensive Costs'',
           [(''Government Hospital'', 2 :: int64), (''Small Private Hospital'', 0),
            (''High-Class Private Hospital'', 0), (''Total'', 2)]),
          (''Hostility'',
           [(''Government Hospital'', 10), (''Small Private Hospital'', 0),
            (''High-Class Private Hospital'', 0), (''Total'', 10)])]"
  have table: "company_counts ?df = Inr ?w"
    by code_simp
  have table': "reviews_per_type ?df = Inr ?w'"
    by code_simp
  from table_rows_are_present_categories [where df = ?df and w = ?w and w' = ?w',
      THEN conjunct2, THEN conjunct1, THEN mp, OF table]
  have "sorted_wrt (<) (map fst ?w)"
    by (rule conjunct1)
  then have "sorted_wrt (<) [''Expensive Costs'', ''Hostility'']"
    by simp
  with table table' show ?thesis by (intro conjI)
qed

text \<open>
  C2, counterexample: the script run on raw records of \<^verbatim>\<open>Hostility\<close> and
  \<^verbatim>\<open>Expensive Costs\<close>. Both tables have two rows, not eight, and
  \<^verbatim>\<open>Expensive Costs\<close> comes first, while the fixed list has \<^verbatim>\<open>Hostility\<close> before it.
\<close>

theorem table_rows_not_the_fixed_list:
  "script \<lparr>parse = Map.empty, machine = (\<lambda>vs v. 0), machine_error = Map.empty\<rparr>
     [\<lparr>Company_Name = Some ''A'', Company_Type = Some ''Government Hospital'',
        Company_Location = Some ''locA'', Standardized_Category = Some ''Hostility'',
        Review_Count = Num (Py_int 10)\<rparr>,
      \<lparr>Company_Name = Some ''A'', Company_Type = Some ''Government Hospital'',
        Company_Location = Some ''locA'', Standardized_Category = Some ''Expensive Costs'',
        Review_Count = Num (Py_int 2)\<rparr>]
   = Inr \<lparr>app_viz_df =
       [\<lparr>Company_Name = Some ''A'', Company_Type = Some ''Government Hospital'',
          Company_Location = Some ''locA'', Standardized_Category = Some ''Hostility'',
          Review_Count = 10\<rparr>,
        \<lparr>Company_Name = Some ''A'', Company_Type = Some ''Government Hospital'',
          Company_Location = Some ''locA'', Standardized_Category = Some ''Expensive Costs'',
          Review_Count = 2\<rparr>],
       app_company_counts =
         [(''Expensive Costs'',
           [(''Government Hospital'', 1), (''Small Private Hospital'', 0),
            (''High-Class Private Hospital'', 0), (''Total'', 1)]),
          (''Hostility'',
           [(''Government Hospital'', 1), (''Small Private Hospital'', 0),
            (''High-Class Private Hospital'', 0), (''Total'', 1)])],
       app_reviews_per_type =
         [(''Expensive Costs'',
           [(''Government Hospital'', 2), (''Small Private Hospital'', 0),
            (''High-Class Private Hospital'', 0), (''Total'', 2)]),
          (''Hostility'',
           [(''Government Hospital'', 10), (''Small Private Hospital'', 0),
            (''High-Class Private Hospital'', 0), (''Total'', 10)])],
       app_company_breakdown =
         [(''Expensive Costs'', [(Some ''A'', Some ''locA'')]),
          (''Hostility'', [(Some ''A'', Some ''locA'')])]\<rparr>
   \<and> length available_categories = 8
   \<and> available_categories ! 5 = ''Hostility''
   \<and> available_categories ! 6 = ''Expensive Costs''"
proof (intro conjI)
  show "script \<lparr>parse = Map.empty, machine = (\<lambda>vs v. 0), machine_error = Map.empty\<rparr>
     [\<lparr>Company_Name = Some ''A'', Company_Type = Some ''Government Hospital'',
        Company_Location = Some ''locA'', Standardized_Category = Some ''Hostility'',
        Review_Count = Num (Py_int 10)\<rparr>,
      \<lparr>Company_Name = Some ''A'', Company_Type = Some ''Government Hospital'',
        Company_Location = Some ''locA'', Standardized_Category = Some ''Expensive Costs'',
        Review_Count = Num (Py_int 2)\<rparr>]
   = Inr \<lparr>app_viz_df =
       [\<lparr>Company_Name = Some ''A'', Company_Type = Some ''Government Hospital'',
          Company_Location = Some ''locA'', Standardized_Category = Some ''Hostility'',
          Review_Count = 10\<rparr>,
        \<lparr>Company_Name = Some ''A'', Company_Type = Some ''Government Hospital'',
          Company_Location = Some ''locA'', Standardized_Category = Some ''Expensive Costs'',
          Review_Count = 2\<rparr>],
       app_company_counts =
         [(''Expensive Costs'',
           [(''Government Hospital'', 1), (''Small Private Hospital'', 0),
            (''High-Class Private Hospital'', 0), (''Total'', 1)]),
          (''Hostility'',
           [(''Government Hospital'', 1), (''Small Private Hospital'', 0),
            (''High-Class Private Hospital'', 0), (''Total'', 1)])],
       app_reviews_per_type =
         [(''Expensive Costs'',
           [(''Government Hospital'', 2), (''Small Private Hospital'', 0),
            (''High-Class Private Hospital'', 0), (''Total'', 2)]),
          (''Hostility'',
           [(''Government Hospital'', 10), (''Small Private Hospital'', 0),
            (''High-Class Private Hospital'', 0), (''Total'', 10)])],
       app_company_breakdown =
         [(''Expensive Costs'', [(Some ''A'', Some ''locA'')]),
          (''Hostility'', [(Some ''A'', Some ''locA'')])]\<rparr>"
    by code_simp
  show "length available_categories = 8"
    and "available_categories ! 5 = ''Hostility''"
    and "available_categories ! 6 = ''Expensive Costs''"
    by (simp_all add: available_categories_def)
qed

subsection \<open>The cells of the company table\<close>

lemma map_of_update_Total:
  "map_of (AList.update ''Total'' x (map (\<lambda>t. (t, f t)) cols)) t
     = (if t = ''Total'' then Some x else if t \<in> set cols then Some (f t) else None)"
  by (simp add: update_conv' map_of_tabulate)

lemma company_counts_row:
  assumes ok: "company_counts df = Inr w" and row: "(c, cells) \<in> set w"
  shows "map_of cells ''Total''
       = Some (records_in_cell df c ''Government Hospital''
                 + records_in_cell df c ''Small Private Hospital''
                 + records_in_cell df c ''High-Class Private Hospital'')"
    and "t \<noteq> ''Total'' \<Longrightarrow> map_of cells t
       = (if t \<in> set company_types \<or> (\<exists>c'. \<exists>r \<in> set df. in_cell c' t r)
          then Some (records_in_cell df c t) else None)"
proof -
  from company_counts_table [OF ok] obtain cols'
    where cols': "set cols' = {t. \<exists>c. \<exists>r \<in> set df. in_cell c t r} \<union> set company_types"
      and w: "w = map (\<lambda>c. (c, AList.update ''Total''
                (records_in_cell df c ''Government Hospital''
                 + records_in_cell df c ''Small Private Hospital''
                 + records_in_cell df c ''High-Class Private Hospital'')
                (map (\<lambda>t. (t, records_in_cell df c t)) cols')))
          (sort (remdups (map fst (List.map_filter group_key df))))"
    by blast
  from row have cells: "cells = AList.update ''Total''
                (records_in_cell df c ''Government Hospital''
                 + records_in_cell df c ''Small Private Hospital''
                 + records_in_cell df c ''High-Class Private Hospital'')
                (map (\<lambda>t. (t, records_in_cell df c t)) cols')"
    unfolding w by auto
  show "map_of cells ''Total''
       = Some (records_in_cell df c ''Government Hospital''
                 + records_in_cell df c ''Small Private Hospital''
                 + records_in_cell df c ''High-Class Private Hospital'')"
    unfolding cells map_of_update_Total by simp
  show "map_of cells t
       = (if t \<in> set company_types \<or> (\<exists>c'. \<exists>r \<in> set df. in_cell c' t r)
          then Some (records_in_cell df c t) else None)" if "t \<noteq> ''Total''"
    unfolding cells map_of_update_Total cols' using that by auto
qed

lemma companies_in_cell_distinct:
  "distinct (map Company_Name (filter (in_cell c t) df)) \<Longrightarrow>
   companies_in_cell df c t = records_in_cell df c t"
  by (simp add: companies_in_cell_def records_in_cell_def distinct_remdups_id)

lemma records_in_cell_0:
  "\<forall>r \<in> set df. \<not> in_cell c t r \<Longrightarrow> records_in_cell df c t = 0"
  by (simp add: records_in_cell_def filter_empty_conv)

text \<open>
  C4, as the code has it. In every row of the company table, for each of the three
  company types of \<open>company_types\<close> and each company type found in the frame (the
  column \<^verbatim>\<open>Total\<close> apart): where no company has two records in the cell, the cell
  is the number of distinct companies with a record in it; where no record is in
  the cell, the cell is there and is 0. A category without records has no row, so
  its cells are absent.
\<close>

theorem company_counts_cells:
  assumes "company_counts df = Inr w"
  shows "\<forall>(c, cells) \<in> set w. \<forall>t.
      (t \<in> set company_types \<or> (\<exists>c'. \<exists>r \<in> set df. in_cell c' t r)) \<and> t \<noteq> ''Total'' \<longrightarrow>
        (distinct (map Company_Name (filter (in_cell c t) df)) \<longrightarrow>
           map_of cells t = Some (companies_in_cell df c t))
      \<and> ((\<forall>r \<in> set df. \<not> in_cell c t r) \<longrightarrow> map_of cells t = Some 0)"
proof (intro ballI, clarify)
  fix c cells t
  assume row: "(c, cells) \<in> set w"
    and col: "t \<in> set company_types \<or> (\<exists>c'. \<exists>r \<in> set df. in_cell c' t r)"
    and t: "t \<noteq> ''Total''"
  from company_counts_row(2) [OF assms row t] col
  have cell: "map_of cells t = Some (records_in_cell df c t)"
    by simp
  show "(distinct (map Company_Name (filter (in_cell c t) df)) \<longrightarrow>
           map_of cells t = Some (companies_in_cell df c t))
      \<and> ((\<forall>r \<in> set df. \<not> in_cell c t r) \<longrightarrow> map_of cells t = Some 0)"
    unfolding cell by (simp add: companies_in_cell_distinct records_in_cell_0)
qed

text \<open>
  C4, witness: two companies with one record each in the cell of \<^verbatim>\<open>Hostility\<close>
  and government hospitals.
\<close>

theorem company_counts_cells_witness:
  "company_counts
     [\<lparr>Company_Name = Some ''A'', Company_Type = Some ''Government Hospital'',
        Company_Location = Some ''locA'', Standardized_Category = Some ''Hostility'',
        Review_Count = 10 :: int64\<rparr>,
      \<lparr>Company_Name = Some ''B'', Company_Type = Some ''Government Hospital'',
        Company_Location = Some ''locB'', Standardized_Category = Some ''Hostility'',
        Review_Count = 5\<rparr>]
   = Inr [(''Hostility'',
           [(''Government Hospital'', 2), (''Small Private Hospital'', 0),
            (''High-Class Private Hospital'', 0), (''Total'', 2)])]
   \<and> companies_in_cell
     [\<lparr>Company_Name = Some ''A'', Company_Type = Some ''Government Hospital'',
        Company_Location = Some ''locA'', Standardized_Category = Some ''Hostility'',
        Review_Count = 10 :: int64\<rparr>,
      \<lparr>Company_Name = Some ''B'', Company_Type = Some ''Government Hospital'',
        Company_Location = Some ''locB'', Standardized_Category = Some ''Hostility'',
        Review_Count = 5\<rparr>] ''Hostility'' ''Government Hospital'' = 2"
proof -
  let ?df = "[\<lparr>Company_Name = Some ''A'', Company_Type = Some ''Government Hospital'',
        Company_Location = Some ''locA'', Standardized_Category = Some ''Hostility'',
        Review_Count = 10 :: int64\<rparr>,
      \<lparr>Company_Name = Some ''B'', Company_Type = Some ''Government Hospital'',
        Company_Location = Some ''locB'', Standardized_Category = Some ''Hostility'',
        Review_Count = 5\<rparr>]"
  let ?cells = "[(''Government Hospital'', 2::int), (''Small Private Hospital'', 0),
            (''High-Class Private Hospital'', 0), (''Total'', 2)]"
  have table: "company_counts ?df = Inr [(''Hostility'', ?cells)]"
    by code_simp
  have row: "(''Hostility'', ?cells) \<in> set [(''Hostility'', ?cells)]"
    by simp
  have col: "(''Government Hospital'' \<in> set company_types
        \<or> (\<exists>c'. \<exists>r \<in> set ?df. in_cell c' ''Government Hospital'' r))
      \<and> ''Government Hospital'' \<noteq> ''Total''"
    by (simp add: company_types_def)
  have once: "distinct (map Company_Name (filter (in_cell ''Hostility'' ''Government Hospital'') ?df))"
    by (simp add: in_cell_def)
  from bspec [OF company_counts_cells [OF table] row]
  have "\<forall>t. (t \<in> set company_types \<or> (\<exists>c'. \<exists>r \<in> set ?df. in_cell c' t r)) \<and> t \<noteq> ''Total'' \<longrightarrow>
        (distinct (map Company_Name (filter (in_cell ''Hostility'' t) ?df)) \<longrightarrow>
           map_of ?cells t = Some (companies_in_cell ?df ''Hostility'' t))
      \<and> ((\<forall>r \<in> set ?df. \<not> in_cell ''Hostility'' t r) \<longrightarrow> map_of ?cells t = Some 0)"
    by (simp only: prod.case)
  then have "(distinct (map Company_Name (filter (in_cell ''Hostility'' ''Government Hospital'') ?df)) \<longrightarrow>
           map_of ?cells ''Government Hospital''
             = Some (companies_in_cell ?df ''Hostility'' ''Government Hospital''))"
    using col by blast
  with once have "map_of ?cells ''Government Hospital''
      = Some (companies_in_cell ?df ''Hostility'' ''Government Hospital'')"
    by (rule rev_mp)
  then have "companies_in_cell ?df ''Hostility'' ''Government Hospital'' = 2"
    by simp
  with table show ?thesis by (rule conjI)
qed

text \<open>
  C4, counterexample: the script run on two raw records of company A in one cell.
  The cell is 2, the number of distinct companies is 1, and the table has no row
  for \<^verbatim>\<open>Others\<close>.
\<close>

theorem company_counts_counts_records:
  "script \<lparr>parse = Map.empty, machine = (\<lambda>vs v. 0), machine_error = Map.empty\<rparr>
     [\<lparr>Company_Name = Some ''A'', Company_Type = Some ''Government Hospital'',
        Company_Location = Some ''locA'', Standardized_Category = Some ''Hostility'',
        Review_Count = Num (Py_int 10)\<rparr>,
      \<lparr>Company_Name = Some ''A'', Company_Type = Some ''Government Hospital'',
        Company_Location = Some ''locA'', Standardized_Category = Some ''Hostility'',
        Review_Count = Num (Py_int 5)\<rparr>]
   = Inr \<lparr>app_viz_df =
       [\<lparr>Company_Name = Some ''A'', Company_Type = Some ''Government Hospital'',
          Company_Location = Some ''locA'', Standardized_Category = Some ''Hostility'',
          Review_Count = 10\<rparr>,
        \<lparr>Company_Name = Some ''A'', Company_Type = Some ''Government Hospital'',
          Company_Location = Some ''locA'', Standardized_Category = Some ''Hostility'',
          Review_Count = 5\<rparr>],
       app_company_counts =
         [(''Hostility'',
           [(''Government Hospital'', 2), (''Small Private Hospital'', 0),
            (''High-Class Private Hospital'', 0), (''Total'', 2)])],
       app_reviews_per_type =
         [(''Hostility'',
           [(''Government Hospital'', 15), (''Small Private Hospital'', 0),
            (''High-Class Private Hospital'', 0), (''Total'', 15)])],
       app_company_breakdown = [(''Hostility'', [(Some ''A'', Some ''locA'')])]\<rparr>
   \<and> companies_in_cell
       [\<lparr>Company_Name = Some ''A'', Company_Type = Some ''Government Hospital'',
          Company_Location = Some ''locA'', Standardized_Category = Some ''Hostility'',
          Review_Count = 10 :: int64\<rparr>,
        \<lparr>Company_Name = Some ''A'', Company_Type = Some ''Government Hospital'',
          Company_Location = Some ''locA'', Standardized_Category = Some ''Hostility'',
          Review_Count = 5\<rparr>] ''Hostility'' ''Government Hospital'' = 1
   \<and> map_of [(''Hostility'',
           [(''Government Hospital'', 2::int), (''Small Private Hospital'', 0),
            (''High-Class Private Hospital'', 0), (''Total'', 2)])] ''Others'' = None"
proof (intro conjI)
  show "script \<lparr>parse = Map.empty, machine = (\<lambda>vs v. 0), machine_error = Map.empty\<rparr>
     [\<lparr>Company_Name = Some ''A'', Company_Type = Some ''Government Hospital'',
        Company_Location = Some ''locA'', Standardized_Category = Some ''Hostility'',
        Review_Count = Num (Py_int 10)\<rparr>,
      \<lparr>Company_Name = Some ''A'', Company_Type = Some ''Government Hospital'',
        Company_Location = Some ''locA'', Standardized_Category = Some ''Hostility'',
        Review_Count = Num (Py_int 5)\<rparr>]
   = Inr \<lparr>app_viz_df =
       [\<lparr>Company_Name = Some ''A'', Company_Type = Some ''Government Hospital'',
          Company_Location = Some ''locA'', Standardized_Category = Some ''Hostility'',
          Review_Count = 10\<rparr>,
        \<lparr>Company_Name = Some ''A'', Company_Type = Some ''Government Hospital'',
          Company_Location = Some ''locA'', Standardized_Category = Some ''Hostility'',
          Review_Count = 5\<rparr>],
       app_company_counts =
         [(''Hostility'',
           [(''Government Hospital'', 2), (''Small Private Hospital'', 0),
            (''High-Class Private Hospital'', 0), (''Total'', 2)])],
       app_reviews_per_type =
         [(''Hostility'',
           [(''Government Hospital'', 15), (''Small Private Hospital'', 0),
            (''High-Class Private Hospital'', 0), (''Total'', 15)])],
       app_company_breakdown = [(''Hostility'', [(Some ''A'', Some ''locA'')])]\<rparr>"
    by code_simp
  show "companies_in_cell
       [\<lparr>Company_Name = Some ''A'', Company_Type = Some ''Government Hospital'',
          Company_Location = Some ''locA'', Standardized_Category = Some ''Hostility'',
          Review_Count = 10 :: int64\<rparr>,
        \<lparr>Company_Name = Some ''A'', Company_Type = Some ''Government Hospital'',
          Company_Location = Some ''locA'', Standardized_Category = Some ''Hostility'',
          Review_Count = 5\<rparr>] ''Hostility'' ''Government Hospital'' = 1"
    by code_simp
  show "map_of [(''Hostility'',
           [(''Government Hospital'', 2::int), (''Small Private Hospital'', 0),
            (''High-Class Private Hospital'', 0), (''Total'', 2)])] ''Others'' = None"
    by simp
qed

subsection \<open>The Total column\<close>

lemma sum_list_ones: "sum_list (map (\<lambda>r. 1::int) xs) = int (length xs)"
  by (simp add: sum_list_triv)

lemma totals_of_rows:
  "List.map_filter (\<lambda>(c, cells). map_of cells k)
       (map (\<lambda>c. (c, AList.update k (x c) (al c))) index)
     = map x index"
  by (induction index) (simp_all add: List.map_filter_simps update_conv')

lemma sum_records_in_cell:
  "sum_list (map (\<lambda>c. records_in_cell df c t)
       (sort (remdups (map fst (List.map_filter group_key df)))))
     = int (length (filter (\<lambda>r. Company_Type r = Some t \<and> Standardized_Category r \<noteq> None) df))"
proof -
  let ?index = "sort (remdups (map fst (List.map_filter group_key df)))"
  let ?key = "\<lambda>r. if Company_Type r = Some t then Standardized_Category r else None"
  have cell: "records_in_cell df c t = sum_list (map (\<lambda>r. 1) (filter (\<lambda>r. ?key r = Some c) df))"
    for c
  proof -
    have "filter (in_cell c t) df = filter (\<lambda>r. ?key r = Some c) df"
      by (rule filter_cong) (auto simp: in_cell_def)
    then show ?thesis
      unfolding records_in_cell_def sum_list_ones by (rule arg_cong)
  qed
  have covered: "\<forall>r \<in> set df. \<forall>k. ?key r = Some k \<longrightarrow> k \<in> set ?index"
    unfolding set_group_categories by (auto simp: in_cell_def split: if_splits)
  have "sum_list (map (\<lambda>c. sum_list (map (\<lambda>r. 1::int) (filter (\<lambda>r. ?key r = Some c) df))) ?index)
      = sum_list (map (\<lambda>r. 1) (filter (\<lambda>r. ?key r \<noteq> None) df))"
    by (rule sum_over_groups [OF _ covered]) simp
  also have "(\<lambda>r. ?key r \<noteq> None)
      = (\<lambda>r. Company_Type r = Some t \<and> Standardized_Category r \<noteq> None)"
    by (auto simp: fun_eq_iff)
  finally show ?thesis
    unfolding cell sum_list_ones .
qed

lemma count_three_types:
  "int (length (filter (\<lambda>r. Company_Type r \<in> Some ` set company_types \<and> G r) df))
     = int (length (filter (\<lambda>r. Company_Type r = Some ''Government Hospital'' \<and> G r) df))
     + int (length (filter (\<lambda>r. Company_Type r = Some ''Small Private Hospital'' \<and> G r) df))
     + int (length (filter (\<lambda>r. Company_Type r = Some ''High-Class Private Hospital'' \<and> G r) df))"
  by (induction df) (auto simp: company_types_def)

text \<open>
  C5. Unless a raw record has the company type \<^verbatim>\<open>Standardized Category\<close>, the
  company table of a cleaned frame is built; and the cleaning returns, so that the
  table is built from the raw frame, whenever every kept raw count is a missing
  cell, a text that is no number, an integer of at most \<open>2 ^ 53\<close> in absolute
  value or a float whose integer part is in the range of \<^verbatim>\<open>int64\<close>. In every row
  of the table of the cleaned frame the cells of the three company types are there
  and \<^verbatim>\<open>Total\<close> is their sum; the \<^verbatim>\<open>Total\<close> cells of all rows add up to the number
  of cleaned records whose company type is one of the three.
\<close>

theorem company_counts_total:
  "((\<forall>r \<in> set raw_df. Company_Type r \<noteq> Some ''Standardized Category'') \<longrightarrow>
      (normalize N raw_df = Inr df \<longrightarrow> (\<exists>w. company_counts df = Inr w))
      \<and> ((\<forall>r \<in> set raw_df. Company_Name r \<noteq> None \<and> Standardized_Category r \<noteq> None \<longrightarrow>
            plain (to_numeric N (Review_Count r))) \<longrightarrow>
          (\<exists>df w. normalize N raw_df = Inr df \<and> company_counts df = Inr w)))
   \<and> (normalize N raw_df = Inr df \<and> company_counts df = Inr w \<longrightarrow>
      (\<forall>(c, cells) \<in> set w. \<exists>g s h.
          map_of cells ''Government Hospital'' = Some g
        \<and> map_of cells ''Small Private Hospital'' = Some s
        \<and> map_of cells ''High-Class Private Hospital'' = Some h
        \<and> map_of cells ''Total'' = Some (g + s + h))
      \<and> sum_list (List.map_filter (\<lambda>(c, cells). map_of cells ''Total'') w)
        = int (length (filter (\<lambda>r. Company_Type r \<in> Some ` set company_types) df)))"
proof (intro conjI impI)
  assume free: "\<forall>r \<in> set raw_df. Company_Type r \<noteq> Some ''Standardized Category''"
    and ok: "normalize N raw_df = Inr df"
  have "\<forall>r \<in> set df. Company_Type r \<noteq> Some ''Standardized Category''"
    using free cleaned_type_clash [OF ok] by blast
  then show "\<exists>w. company_counts df = Inr w"
    by (rule company_counts_returns)
next
  assume free: "\<forall>r \<in> set raw_df. Company_Type r \<noteq> Some ''Standardized Category''"
    and "\<forall>r \<in> set raw_df. Company_Name r \<noteq> None \<and> Standardized_Category r \<noteq> None \<longrightarrow>
            plain (to_numeric N (Review_Count r))"
  then have "\<forall>r \<in> set (dropna raw_df). plain (to_numeric N (Review_Count r))"
    by (simp add: in_dropna)
  then obtain df' where ok: "normalize N raw_df = Inr df'"
    using normalize_returns by blast
  have "\<forall>r \<in> set df'. Company_Type r \<noteq> Some ''Standardized Category''"
    using free cleaned_type_clash [OF ok] by blast
  then have "\<exists>w. company_counts df' = Inr w"
    by (rule company_counts_returns)
  with ok show "\<exists>df w. normalize N raw_df = Inr df \<and> company_counts df = Inr w"
    by blast
next
  assume "normalize N raw_df = Inr df \<and> company_counts df = Inr w"
  then have ok: "company_counts df = Inr w" ..
  show "\<forall>(c, cells) \<in> set w. \<exists>g s h.
        map_of cells ''Government Hospital'' = Some g
      \<and> map_of cells ''Small Private Hospital'' = Some s
      \<and> map_of cells ''High-Class Private Hospital'' = Some h
      \<and> map_of cells ''Total'' = Some (g + s + h)"
  proof (intro ballI, clarify)
    fix c cells assume row: "(c, cells) \<in> set w"
    have "map_of cells ''Government Hospital'' = Some (records_in_cell df c ''Government Hospital'')"
      using company_counts_row(2) [OF ok row, of "''Government Hospital''"]
      by (simp add: company_types_def)
    moreover have "map_of cells ''Small Private Hospital''
        = Some (records_in_cell df c ''Small Private Hospital'')"
      using company_counts_row(2) [OF ok row, of "''Small Private Hospital''"]
      by (simp add: company_types_def)
    moreover have "map_of cells ''High-Class Private Hospital''
        = Some (records_in_cell df c ''High-Class Private Hospital'')"
      using company_counts_row(2) [OF ok row, of "''High-Class Private Hospital''"]
      by (simp add: company_types_def)
    moreover note company_counts_row(1) [OF ok row]
    ultimately show "\<exists>g s h.
        map_of cells ''Government Hospital'' = Some g
      \<and> map_of cells ''Small Private Hospital'' = Some s
      \<and> map_of cells ''High-Class Private Hospital'' = Some h
      \<and> map_of cells ''Total'' = Some (g + s + h)"
      by blast
  qed
next
  let ?index = "sort (remdups (map fst (List.map_filter group_key df)))"
  let ?n = "records_in_cell df"
  assume both: "normalize N raw_df = Inr df \<and> company_counts df = Inr w"
  then have cleaned: "normalize N raw_df = Inr df" and ok: "company_counts df = Inr w"
    by simp_all
  from company_counts_table [OF ok] obtain cols'
    where w: "w = map (\<lambda>c. (c, AList.update ''Total''
                (?n c ''Government Hospital'' + ?n c ''Small Private Hospital''
                 + ?n c ''High-Class Private Hospital'')
                (map (\<lambda>t. (t, ?n c t)) cols'))) ?index"
    by blast
  have "List.map_filter (\<lambda>(c, cells). map_of cells ''Total'') w
      = map (\<lambda>c. ?n c ''Government Hospital'' + ?n c ''Small Private Hospital''
                 + ?n c ''High-Class Private Hospital'') ?index"
    unfolding w by (rule totals_of_rows)
  then have "sum_list (List.map_filter (\<lambda>(c, cells). map_of cells ''Total'') w)
      = sum_list (map (\<lambda>c. ?n c ''Government Hospital'') ?index)
      + sum_list (map (\<lambda>c. ?n c ''Small Private Hospital'') ?index)
      + sum_list (map (\<lambda>c. ?n c ''High-Class Private Hospital'') ?index)"
    by (simp add: sum_list_addf)
  also have "\<dots> = int (length (filter (\<lambda>r. Company_Type r \<in> Some ` set company_types
        \<and> Standardized_Category r \<noteq> None) df))"
    unfolding sum_records_in_cell count_three_types ..
  also have "filter (\<lambda>r. Company_Type r \<in> Some ` set company_types
        \<and> Standardized_Category r \<noteq> None) df
      = filter (\<lambda>r. Company_Type r \<in> Some ` set company_types) df"
    by (rule filter_cong) (auto dest: cleaned_category_present [OF cleaned])
  finally show "sum_list (List.map_filter (\<lambda>(c, cells). map_of cells ''Total'') w)
     = int (length (filter (\<lambda>r. Company_Type r \<in> Some ` set company_types) df))" .
qed

text \<open>
  C5, witness: three raw records, one of a company type outside the three and one
  whose type the synonym table maps into them; the totals add up to 2.
\<close>

theorem company_counts_total_witness:
  "normalize \<lparr>parse = Map.empty, machine = (\<lambda>vs v. 0), machine_error = Map.empty\<rparr>
     [\<lparr>Company_Name = Some ''A'', Company_Type = Some ''Government Hospital'',
        Company_Location = Some ''locA'', Standardized_Category = Some ''Hostility'',
        Review_Count = Num (Py_int 10)\<rparr>,
      \<lparr>Company_Name = Some ''B'', Company_Type = Some ''Clinic'',
        Company_Location = Some ''locB'', Standardized_Category = Some ''Hostility'',
        Review_Count = Num (Py_int 5)\<rparr>,
      \<lparr>Company_Name = Some ''C'', Company_Type = Some ''Modern/High-Class Private Hospital'',
        Company_Location = Some ''locC'', Standardized_Category = Some ''Others'',
        Review_Count = Num (Py_int 2)\<rparr>]
   = Inr [\<lparr>Company_Name = Some ''A'', Company_Type = Some ''Government Hospital'',
        Company_Location = Some ''locA'', Standardized_Category = Some ''Hostility'',
        Review_Count = 10\<rparr>,
      \<lparr>Company_Name = Some ''B'', Company_Type = Some ''Clinic'',
        Company_Location = Some ''locB'', Standardized_Category = Some ''Hostility'',
        Review_Count = 5\<rparr>,
      \<lparr>Company_Name = Some ''C'', Company_Type = Some ''High-Class Private Hospital'',
        Company_Location = Some ''locC'', Standardized_Category = Some ''Others'',
        Review_Count = 2\<rparr>]
   \<and> company_counts
     [\<lparr>Company_Name = Some ''A'', Company_Type = Some ''Government Hospital'',
        Company_Location = Some ''locA'', Standardized_Category = Some ''Hostility'',
        Review_Count = 10 :: int64\<rparr>,
      \<lparr>Company_Name = Some ''B'', Company_Type = Some ''Clinic'',
        Company_Location = Some ''locB'', Standardized_Category = Some ''Hostility'',
        Review_Count = 5\<rparr>,
      \<lparr>Company_Name = Some ''C'', Company_Type = Some ''High-Class Private Hospital'',
        Company_Location = Some ''locC'', Standardized_Category = Some ''Others'',
        Review_Count = 2\<rparr>]
   = Inr [(''Hostility'',
           [(''Clinic'', 1), (''Government Hospital'', 1), (''High-Class Private Hospital'', 0),
            (''Small Private Hospital'', 0), (''Total'', 1)]),
          (''Others'',
           [(''Clinic'', 0), (''Government Hospital'', 0), (''High-Class Private Hospital'', 1),
            (''Small Private Hospital'', 0), (''Total'', 1)])]
   \<and> int (length (filter (\<lambda>r. Company_Type r \<in> Some ` set company_types)
     [\<lparr>Company_Name = Some ''A'', Company_Type = Some ''Government Hospital'',
        Company_Location = Some ''locA'', Standardized_Category = Some ''Hostility'',
        Review_Count = 10 :: int64\<rparr>,
      \<lparr>Company_Name = Some ''B'', Company_Type = Some ''Clinic'',
        Company_Location = Some ''locB'', Standardized_Category = Some ''Hostility'',
        Review_Count = 5\<rparr>,
      \<lparr>Company_Name = Some ''C'', Company_Type = Some ''High-Class Private Hospital'',
        Company_Location = Some ''locC'', Standardized_Category = Some ''Others'',
        Review_Count = 2\<rparr>])) = 2"
proof -
  let ?N = "\<lparr>parse = Map.empty, machine = (\<lambda>vs v. 0), machine_error = Map.empty\<rparr>"
  let ?raw = "[\<lparr>Company_Name = Some ''A'', Company_Type = Some ''Government Hospital'',
        Company_Location = Some ''locA'', Standardized_Category = Some ''Hostility'',
        Review_Count = Num (Py_int 10)\<rparr>,
      \<lparr>Company_Name = Some ''B'', Company_Type = Some ''Clinic'',
        Company_Location = Some ''locB'', Standardized_Category = Some ''Hostility'',
        Review_Count = Num (Py_int 5)\<rparr>,
      \<lparr>Company_Name = Some ''C'', Company_Type = Some ''Modern/High-Class Private Hospital'',
        Company_Location = Some ''locC'', Standardized_Category = Some ''Others'',
        Review_Count = Num (Py_int 2)\<rparr>]"
  let ?df = "[\<lparr>Company_Name = Some ''A'', Company_Type = Some ''Government Hospital'',
        Company_Location = Some ''locA'', Standardized_Category = Some ''Hostility'',
        Review_Count = 10 :: int64\<rparr>,
      \<lparr>Company_Name = Some ''B'', Company_Type = Some ''Clinic'',
        Company_Location = Some ''locB'', Standardized_Category = Some ''Hostility'',
        Review_Count = 5\<rparr>,
      \<lparr>Company_Name = Some ''C'', Company_Type = Some ''High-Class Private Hospital'',
        Company_Location = Some ''locC'', Standardized_Category = Some ''Others'',
        Review_Count = 2\<rparr>]"
  let ?w = "[(''Hostility'',
           [(''Clinic'', 1::int), (''Government Hospital'', 1), (''High-Class Private Hospital'', 0),
            (''Small Private Hospital'', 0), (''Total'', 1)]),
          (''Others'',
           [(''Clinic'', 0), (''Government Hospital'', 0), (''High-Class Private Hospital'', 1),
            (''Small Private Hospital'', 0), (''Total'', 1)])]"
  have cleaned: "normalize ?N ?raw = Inr ?df"
    by code_simp
  have table: "company_counts ?df = Inr ?w"
    by code_simp
  from cleaned table have "normalize ?N ?raw = Inr ?df \<and> company_counts ?df = Inr ?w"
    by (rule conjI)
  from mp [OF company_counts_total [THEN conjunct2] this]
  have "sum_list (List.map_filter (\<lambda>(c, cells). map_of cells ''Total'') ?w)
     = int (length (filter (\<lambda>r. Company_Type r \<in> Some ` set company_types) ?df))"
    by (rule conjunct2)
  then have "int (length (filter (\<lambda>r. Company_Type r \<in> Some ` set company_types) ?df)) = 2"
    by (simp add: List.map_filter_simps)
  with cleaned table show ?thesis by (intro conjI)
qed

section \<open>The script and the two callbacks\<close>

subsection \<open>Lines 89 to 93\<close>

lemma drop_duplicates_from_filter:
  "drop_duplicates_from seen xs = filter (\<lambda>y. y \<notin> set seen) (drop_duplicates_from [] xs)"
proof (induction xs arbitrary: seen)
  case Nil
  show ?case by simp
next
  case (Cons x xs)
  have a: "drop_duplicates_from [x] xs = filter (\<lambda>y. y \<noteq> x) (drop_duplicates_from [] xs)"
    using Cons.IH [of "[x]"] by simp
  have b: "drop_duplicates_from (x # seen) xs
      = filter (\<lambda>y. y \<noteq> x \<and> y \<notin> set seen) (drop_duplicates_from [] xs)"
    using Cons.IH [of "x # seen"] by simp
  show ?case
  proof (cases "x \<in> set seen")
    case True
    then have "filter (\<lambda>y. y \<notin> set seen) (filter (\<lambda>y. y \<noteq> x) (drop_duplicates_from [] xs))
        = filter (\<lambda>y. y \<notin> set seen) (drop_duplicates_from [] xs)"
      by (auto intro: filter_cong)
    with True show ?thesis by (simp add: a Cons.IH [of seen] del: filter_filter)
  next
    case False
    then show ?thesis by (simp add: a b conj_commute)
  qed
qed

lemma drop_duplicates_Nil [simp]: "drop_duplicates [] = []"
  by (simp add: drop_duplicates_def)

lemma drop_duplicates_Cons:
  "drop_duplicates (x # xs) = x # filter (\<lambda>y. y \<noteq> x) (drop_duplicates xs)"
  unfolding drop_duplicates_def
  using drop_duplicates_from_filter [of "[x]" xs] by simp

lemma set_drop_duplicates [simp]: "set (drop_duplicates xs) = set xs"
  by (induction xs) (auto simp: drop_duplicates_Cons)

lemma distinct_drop_duplicates [simp]: "distinct (drop_duplicates xs)"
  by (induction xs) (auto simp: drop_duplicates_Cons)

lemma filter_drop_duplicates:
  "filter P (drop_duplicates xs) = drop_duplicates (filter P xs)"
proof (induction xs)
  case Nil
  show ?case by simp
next
  case (Cons x xs)
  show ?case
  proof (cases "P x")
    case True
    have "filter P (filter (\<lambda>y. y \<noteq> x) (drop_duplicates xs))
        = filter (\<lambda>y. y \<noteq> x) (filter P (drop_duplicates xs))"
      by (simp add: conj_commute)
    with True Cons.IH show ?thesis
      by (simp add: drop_duplicates_Cons del: filter_filter)
  next
    case False
    then have "filter P (filter (\<lambda>y. y \<noteq> x) (drop_duplicates xs)) = filter P (drop_duplicates xs)"
      by (auto intro: filter_cong)
    with False Cons.IH show ?thesis
      by (simp add: drop_duplicates_Cons del: filter_filter)
  qed
qed

lemma map_drop_duplicates:
  "inj_on f (set xs) \<Longrightarrow> map f (drop_duplicates xs) = drop_duplicates (map f xs)"
proof (induction xs)
  case Nil
  show ?case by simp
next
  case (Cons x xs)
  then have inj: "inj_on f (set xs)" and x: "\<forall>y \<in> set xs. f y = f x \<longrightarrow> y = x"
    by (auto simp: inj_on_def)
  have "map f (filter (\<lambda>y. y \<noteq> x) (drop_duplicates xs))
      = filter (\<lambda>z. z \<noteq> f x) (map f (drop_duplicates xs))"
    unfolding filter_map o_def
    using x by (auto intro!: arg_cong [where f = "map f"] filter_cong)
  with Cons.IH [OF inj] show ?case
    by (simp add: drop_duplicates_Cons)
qed

lemma first_seen_Cons:
  "first_seen (x # xs) y = (if y = x then 0 else Suc (first_seen xs y))"
  by (simp add: first_seen_def)

lemma first_seen_order_drop_duplicates:
  "sorted_wrt (\<lambda>x y. first_seen xs x < first_seen xs y) (drop_duplicates xs)"
proof (induction xs)
  case Nil
  show ?case by simp
next
  case (Cons x xs)
  let ?rest = "filter (\<lambda>y. y \<noteq> x) (drop_duplicates xs)"
  have "sorted_wrt (\<lambda>a b. first_seen xs a < first_seen xs b) ?rest"
    using Cons.IH by (rule sorted_wrt_filter)
  then have "sorted_wrt (\<lambda>a b. first_seen (x # xs) a < first_seen (x # xs) b) ?rest"
    by (rule sorted_wrt_mono_rel [rotated]) (simp add: first_seen_Cons)
  moreover have "\<forall>y \<in> set ?rest. first_seen (x # xs) x < first_seen (x # xs) y"
    by (simp add: first_seen_Cons)
  ultimately show ?case
    by (simp add: drop_duplicates_Cons)
qed

lemma filter_eq_distinct:
  "distinct xs \<Longrightarrow> filter (\<lambda>k. k = c) xs = (if c \<in> set xs then [c] else [])"
  by (induction xs) auto

lemma company_breakdown_Inr:
  assumes "company_breakdown viz_df = Inr cb"
  shows "cb =
     map (\<lambda>k. (k, map snd (filter (\<lambda>t. fst t = Some k)
        (drop_duplicates
          (map (\<lambda>r. (Standardized_Category r, Company_Name r, Company_Location r)) viz_df)))))
       (sort (remdups (List.map_filter fst
        (drop_duplicates
          (map (\<lambda>r. (Standardized_Category r, Company_Name r, Company_Location r)) viz_df)))))"
  using assms by (auto simp: company_breakdown_def groupby_def o_def split: list.splits)

lemma company_breakdown_Inl:
  "company_breakdown viz_df = Inl ValueError \<longleftrightarrow>
     (\<forall>r \<in> set viz_df. Standardized_Category r = None)"
proof -
  let ?dd = "drop_duplicates
          (map (\<lambda>r. (Standardized_Category r, Company_Name r, Company_Location r)) viz_df)"
  have "company_breakdown viz_df = Inl ValueError \<longleftrightarrow> groupby fst ?dd = []"
    by (simp add: company_breakdown_def split: list.splits)
  also have "\<dots> \<longleftrightarrow> set (sort (remdups (List.map_filter fst ?dd))) = {}"
    unfolding set_empty by (simp add: groupby_def)
  also have "\<dots> \<longleftrightarrow> set (List.map_filter fst ?dd) = {}"
    by (simp only: set_sort set_remdups)
  also have "\<dots> \<longleftrightarrow> (\<forall>r \<in> set viz_df. Standardized_Category r = None)"
    unfolding set_map_filter_key by (auto simp: image_iff) (metis option.exhaust)
  finally show ?thesis .
qed

lemma company_breakdown_cases:
  "company_breakdown viz_df = Inl ValueError \<or> (\<exists>cb. company_breakdown viz_df = Inr cb)"
  by (simp add: company_breakdown_def split: list.splits)

lemma companies_of_category:
  "map snd (filter (\<lambda>t. fst t = Some c)
        (drop_duplicates
          (map (\<lambda>r. (Standardized_Category r, Company_Name r, Company_Location r)) viz_df)))
   = drop_duplicates (map (\<lambda>r. (Company_Name r, Company_Location r))
        (filter (\<lambda>r. Standardized_Category r = Some c) viz_df))"
proof -
  let ?triples = "map (\<lambda>r. (Standardized_Category r, Company_Name r, Company_Location r)) viz_df"
  have inj: "inj_on snd (set (filter (\<lambda>t. fst t = Some c) ?triples))"
    by (auto simp: inj_on_def)
  have "map snd (filter (\<lambda>t. fst t = Some c) (drop_duplicates ?triples))
      = map snd (drop_duplicates (filter (\<lambda>t. fst t = Some c) ?triples))"
    by (simp only: filter_drop_duplicates)
  also have "\<dots> = drop_duplicates (map snd (filter (\<lambda>t. fst t = Some c) ?triples))"
    using inj by (rule map_drop_duplicates)
  also have "map snd (filter (\<lambda>t. fst t = Some c) ?triples)
      = map (\<lambda>r. (Company_Name r, Company_Location r))
          (filter (\<lambda>r. Standardized_Category r = Some c) viz_df)"
    by (simp add: filter_map o_def)
  finally show ?thesis .
qed

lemma update_company_breakdown_Some:
  assumes "company_breakdown viz_df = Inr cb"
  shows "update_company_breakdown cb (Some c) =
     (if \<exists>r \<in> set viz_df. Standardized_Category r = Some c
      then DataTable (drop_duplicates (map (\<lambda>r. (Company_Name r, Company_Location r))
             (filter (\<lambda>r. Standardized_Category r = Some c) viz_df)))
      else No_companies_found)"
proof -
  let ?dd = "drop_duplicates
          (map (\<lambda>r. (Standardized_Category r, Company_Name r, Company_Location r)) viz_df)"
  let ?ks = "sort (remdups (List.map_filter fst ?dd))"
  let ?row = "\<lambda>k. (k, map snd (filter (\<lambda>t. fst t = Some k) ?dd))"
  note cb = company_breakdown_Inr [OF assms]
  have sel: "filter (\<lambda>(c', companies). eq_cell (Some c') (Some c)) cb
      = map ?row (filter (\<lambda>k. k = c) ?ks)"
    by (subst cb) (simp add: filter_map o_def)
  have mem: "c \<in> set ?ks \<longleftrightarrow> (\<exists>r \<in> set viz_df. Standardized_Category r = Some c)"
    by (force simp: set_map_filter_key)
  have "filter (\<lambda>k. k = c) ?ks = (if c \<in> set ?ks then [c] else [])"
    by (rule filter_eq_distinct) simp
  with sel mem have "filter (\<lambda>(c', companies). eq_cell (Some c') (Some c)) cb
      = (if \<exists>r \<in> set viz_df. Standardized_Category r = Some c then [?row c] else [])"
    by simp
  then show ?thesis
    unfolding update_company_breakdown_def companies_of_category [symmetric]
    by simp
qed

lemma update_company_breakdown_None:
  "update_company_breakdown cb None = No_companies_found"
  by (simp add: update_company_breakdown_def)

subsection \<open>When the script gets to the callbacks\<close>

lemma script_Inr:
  assumes "script N raw_df = Inr a"
  shows "normalize N raw_df = Inr (app_viz_df a)"
    and "company_counts (app_viz_df a) = Inr (app_company_counts a)"
    and "reviews_per_type (app_viz_df a) = Inr (app_reviews_per_type a)"
    and "company_breakdown (app_viz_df a) = Inr (app_company_breakdown a)"
  using assms by (auto simp: script_def split: sum.splits)

lemma script_Nil: "script N [] = Inl ValueError"
proof -
  have "company_counts ([] :: int64 row list) = Inr []"
    by (simp add: company_counts_def groupby_size_def unstack_def reset_index_def columns_def
        with_total_def ensure_column_def company_types_def)
  moreover have "reviews_per_type [] = Inr []"
    by (simp add: reviews_per_type_def groupby_sum_def unstack_def reset_index_def columns_def
        with_total_def ensure_column_def company_types_def)
  moreover have "company_breakdown ([] :: int64 row list) = Inl ValueError"
    by (simp add: company_breakdown_Inl)
  ultimately show ?thesis
    by (simp add: script_def normalize_Nil)
qed

lemma script_no_rows:
  assumes "dropna raw_df = []"
  shows "script N raw_df = Inl ValueError"
proof -
  have "normalize N raw_df = Inr []"
    using assms by (simp add: normalize_def review_counts_def)
  moreover have "company_counts ([] :: int64 row list) = Inr []"
    by (simp add: company_counts_def groupby_size_def unstack_def reset_index_def columns_def
        with_total_def ensure_column_def company_types_def)
  moreover have "reviews_per_type [] = Inr []"
    by (simp add: reviews_per_type_def groupby_sum_def unstack_def reset_index_def columns_def
        with_total_def ensure_column_def company_types_def)
  moreover have "company_breakdown ([] :: int64 row list) = Inl ValueError"
    by (simp add: company_breakdown_Inl)
  ultimately show ?thesis
    by (simp add: script_def)
qed

lemma script_returns:
  assumes rows: "dropna raw_df \<noteq> []"
    and counts: "\<forall>r \<in> set (dropna raw_df). plain (to_numeric N (Review_Count r))"
    and free: "\<forall>r \<in> set raw_df. Company_Type r \<noteq> Some ''Standardized Category''"
  shows "\<exists>a. script N raw_df = Inr a"
proof -
  from normalize_returns [OF counts] obtain df where df: "normalize N raw_df = Inr df"
    by blast
  have "\<forall>r \<in> set df. Company_Type r \<noteq> Some ''Standardized Category''"
    using free cleaned_type_clash [OF df] by blast
  then obtain cc rp where cc: "company_counts df = Inr cc" and rp: "reviews_per_type df = Inr rp"
    using company_counts_returns reviews_per_type_returns by blast
  from rows obtain r0 where "r0 \<in> set (dropna raw_df)"
    by (cases "dropna raw_df") auto
  then have "df \<noteq> []"
    by (subst normalize_Inr(2) [OF df]) auto
  then obtain r where "r \<in> set df"
    by (cases df) auto
  with cleaned_category_present [OF df] have "\<not> (\<forall>r \<in> set df. Standardized_Category r = None)"
    by blast
  then have "company_breakdown df \<noteq> Inl ValueError"
    by (simp only: company_breakdown_Inl not_False_eq_True)
  with company_breakdown_cases [of df] obtain cb where cb: "company_breakdown df = Inr cb"
    by blast
  show ?thesis
    by (simp add: script_def df cc rp cb)
qed

subsection \<open>The pie chart of a category\<close>

text \<open>
  C10, as the code has it. Once the script has built its frames, the number in the
  centre of the pie chart of a category is the \<^verbatim>\<open>int64\<close> sum of the review counts
  of the records of that category that have a company type, whatever the type: the
  records whose company type is NaN are left out by the grouping. The sum wraps
  around; it is the sum of the counts as integers whenever that is in the range of
  \<^verbatim>\<open>int64\<close>. The \<^verbatim>\<open>Total\<close> cell of the review table adds the three columns of
  \<open>company_types\<close> only: with 4 reviews of a \<^verbatim>\<open>Clinic\<close> and 1 of a government
  hospital the cell is 1 and the number in the pie chart is 5.
\<close>

theorem pie_total_all_present_types:
  "(script N raw_df = Inr a \<longrightarrow>
      total_reviews (update_category_pie (app_viz_df a) (Some c))
        = sum_list (map Review_Count
            (filter (\<lambda>r. Standardized_Category r = Some c \<and> Company_Type r \<noteq> None) (app_viz_df a)))
      \<and> (in_int64 (sum_list (map (\<lambda>r. sint (Review_Count r))
            (filter (\<lambda>r. Standardized_Category r = Some c \<and> Company_Type r \<noteq> None) (app_viz_df a)))) \<longrightarrow>
          sint (total_reviews (update_category_pie (app_viz_df a) (Some c)))
            = sum_list (map (\<lambda>r. sint (Review_Count r))
                (filter (\<lambda>r. Standardized_Category r = Some c \<and> Company_Type r \<noteq> None) (app_viz_df a)))))
   \<and> script \<lparr>parse = Map.empty, machine = (\<lambda>vs v. 0), machine_error = Map.empty\<rparr>
        [\<lparr>Company_Name = Some ''A'', Company_Type = Some ''Clinic'', Company_Location = None,
           Standardized_Category = Some ''Hostility'', Review_Count = Num (Py_int 4)\<rparr>,
         \<lparr>Company_Name = Some ''B'', Company_Type = Some ''Government Hospital'',
           Company_Location = None, Standardized_Category = Some ''Hostility'',
           Review_Count = Num (Py_int 1)\<rparr>]
      = Inr \<lparr>app_viz_df =
          [\<lparr>Company_Name = Some ''A'', Company_Type = Some ''Clinic'', Company_Location = None,
             Standardized_Category = Some ''Hostility'', Review_Count = 4\<rparr>,
           \<lparr>Company_Name = Some ''B'', Company_Type = Some ''Government Hospital'',
             Company_Location = None, Standardized_Category = Some ''Hostility'',
             Review_Count = 1\<rparr>],
          app_company_counts =
            [(''Hostility'',
              [(''Clinic'', 1), (''Government Hospital'', 1), (''Small Private Hospital'', 0),
               (''High-Class Private Hospital'', 0), (''Total'', 1)])],
          app_reviews_per_type =
            [(''Hostility'',
              [(''Clinic'', 4), (''Government Hospital'', 1), (''Small Private Hospital'', 0),
               (''High-Class Private Hospital'', 0), (''Total'', 1)])],
          app_company_breakdown = [(''Hostility'', [(Some ''A'', None), (Some ''B'', None)])]\<rparr>
   \<and> total_reviews (update_category_pie
        [\<lparr>Company_Name = Some ''A'', Company_Type = Some ''Clinic'', Company_Location = None,
           Standardized_Category = Some ''Hostility'', Review_Count = 4\<rparr>,
         \<lparr>Company_Name = Some ''B'', Company_Type = Some ''Government Hospital'',
           Company_Location = None, Standardized_Category = Some ''Hostility'', Review_Count = 1\<rparr>]
        (Some ''Hostility'')) = 5"
proof (intro conjI impI)
  let ?rows = "filter (\<lambda>r. Standardized_Category r = Some c \<and> Company_Type r \<noteq> None) (app_viz_df a)"
  show total: "total_reviews (update_category_pie (app_viz_df a) (Some c))
        = sum_list (map Review_Count ?rows)"
    unfolding total_reviews_groups by (simp add: conj_commute)
  assume "in_int64 (sum_list (map (\<lambda>r. sint (Review_Count r)) ?rows))"
  then have "in_int64 (sum_list (map sint (map Review_Count ?rows)))"
    by (simp add: o_def)
  from sint_sum_list [OF this]
  show "sint (total_reviews (update_category_pie (app_viz_df a) (Some c)))
      = sum_list (map (\<lambda>r. sint (Review_Count r)) ?rows)"
    unfolding total by (simp add: o_def)
next
  show "script \<lparr>parse = Map.empty, machine = (\<lambda>vs v. 0), machine_error = Map.empty\<rparr>
        [\<lparr>Company_Name = Some ''A'', Company_Type = Some ''Clinic'', Company_Location = None,
           Standardized_Category = Some ''Hostility'', Review_Count = Num (Py_int 4)\<rparr>,
         \<lparr>Company_Name = Some ''B'', Company_Type = Some ''Government Hospital'',
           Company_Location = None, Standardized_Category = Some ''Hostility'',
           Review_Count = Num (Py_int 1)\<rparr>]
      = Inr \<lparr>app_viz_df =
          [\<lparr>Company_Name = Some ''A'', Company_Type = Some ''Clinic'', Company_Location = None,
             Standardized_Category = Some ''Hostility'', Review_Count = 4\<rparr>,
           \<lparr>Company_Name = Some ''B'', Company_Type = Some ''Government Hospital'',
             Company_Location = None, Standardized_Category = Some ''Hostility'',
             Review_Count = 1\<rparr>],
          app_company_counts =
            [(''Hostility'',
              [(''Clinic'', 1), (''Government Hospital'', 1), (''Small Private Hospital'', 0),
               (''High-Class Private Hospital'', 0), (''Total'', 1)])],
          app_reviews_per_type =
            [(''Hostility'',
              [(''Clinic'', 4), (''Government Hospital'', 1), (''Small Private Hospital'', 0),
               (''High-Class Private Hospital'', 0), (''Total'', 1)])],
          app_company_breakdown = [(''Hostility'', [(Some ''A'', None), (Some ''B'', None)])]\<rparr>"
    by code_simp
  show "total_reviews (update_category_pie
        [\<lparr>Company_Name = Some ''A'', Company_Type = Some ''Clinic'', Company_Location = None,
           Standardized_Category = Some ''Hostility'', Review_Count = 4\<rparr>,
         \<lparr>Company_Name = Some ''B'', Company_Type = Some ''Government Hospital'',
           Company_Location = None, Standardized_Category = Some ''Hostility'', Review_Count = 1\<rparr>]
        (Some ''Hostility'')) = 5"
    by code_simp
qed

text \<open>
  C10, witness: the script run on a record of a \<^verbatim>\<open>Clinic\<close> with 4 reviews and a
  record without company type with 2; the number in the pie chart is 4.
\<close>

theorem pie_total_all_present_types_witness:
  "script \<lparr>parse = Map.empty, machine = (\<lambda>vs v. 0), machine_error = Map.empty\<rparr>
     [\<lparr>Company_Name = Some ''A'', Company_Type = Some ''Clinic'', Company_Location = None,
        Standardized_Category = Some ''Hostility'', Review_Count = Num (Py_int 4)\<rparr>,
      \<lparr>Company_Name = Some ''B'', Company_Type = None, Company_Location = None,
        Standardized_Category = Some ''Hostility'', Review_Count = Num (Py_int 2)\<rparr>]
   = Inr \<lparr>app_viz_df =
       [\<lparr>Company_Name = Some ''A'', Company_Type = Some ''Clinic'', Company_Location = None,
          Standardized_Category = Some ''Hostility'', Review_Count = 4\<rparr>,
        \<lparr>Company_Name = Some ''B'', Company_Type = None, Company_Location = None,
          Standardized_Category = Some ''Hostility'', Review_Count = 2\<rparr>],
       app_company_counts =
         [(''Hostility'',
           [(''Clinic'', 1), (''Government Hospital'', 0), (''Small Private Hospital'', 0),
            (''High-Class Private Hospital'', 0), (''Total'', 0)])],
       app_reviews_per_type =
         [(''Hostility'',
           [(''Clinic'', 4), (''Government Hospital'', 0), (''Small Private Hospital'', 0),
            (''High-Class Private Hospital'', 0), (''Total'', 0)])],
       app_company_breakdown = [(''Hostility'', [(Some ''A'', None), (Some ''B'', None)])]\<rparr>
   \<and> total_reviews (update_category_pie
       [\<lparr>Company_Name = Some ''A'', Company_Type = Some ''Clinic'', Company_Location = None,
          Standardized_Category = Some ''Hostility'', Review_Count = 4\<rparr>,
        \<lparr>Company_Name = Some ''B'', Company_Type = None, Company_Location = None,
          Standardized_Category = Some ''Hostility'', Review_Count = 2\<rparr>]
       (Some ''Hostility'')) = 4"
proof -
  let ?N = "\<lparr>parse = Map.empty, machine = (\<lambda>vs v. 0), machine_error = Map.empty\<rparr>"
  let ?raw = "[\<lparr>Company_Name = Some ''A'', Company_Type = Some ''Clinic'', Company_Location = None,
        Standardized_Category = Some ''Hostility'', Review_Count = Num (Py_int 4)\<rparr>,
      \<lparr>Company_Name = Some ''B'', Company_Type = None, Company_Location = None,
        Standardized_Category = Some ''Hostility'', Review_Count = Num (Py_int 2)\<rparr>]"
  let ?df = "[\<lparr>Company_Name = Some ''A'', Company_Type = Some ''Clinic'', Company_Location = None,
          Standardized_Category = Some ''Hostility'', Review_Count = 4 :: int64\<rparr>,
        \<lparr>Company_Name = Some ''B'', Company_Type = None, Company_Location = None,
          Standardized_Category = Some ''Hostility'', Review_Count = 2\<rparr>]"
  let ?a = "\<lparr>app_viz_df = ?df,
       app_company_counts =
         [(''Hostility'',
           [(''Clinic'', 1), (''Government Hospital'', 0), (''Small Private Hospital'', 0),
            (''High-Class Private Hospital'', 0), (''Total'', 0)])],
       app_reviews_per_type =
         [(''Hostility'',
           [(''Clinic'', 4), (''Government Hospital'', 0), (''Small Private Hospital'', 0),
            (''High-Class Private Hospital'', 0), (''Total'', 0)])],
       app_company_breakdown = [(''Hostility'', [(Some ''A'', None), (Some ''B'', None)])]\<rparr>"
  have run: "script ?N ?raw = Inr ?a"
    by code_simp
  from conjunct1 [OF mp [OF conjunct1 [OF pie_total_all_present_types] run]]
  have "total_reviews (update_category_pie (app_viz_df ?a) (Some ''Hostility''))
      = sum_list (map Review_Count
          (filter (\<lambda>r. Standardized_Category r = Some ''Hostility'' \<and> Company_Type r \<noteq> None)
            (app_viz_df ?a)))" .
  then have "total_reviews (update_category_pie ?df (Some ''Hostility'')) = 4"
    by simp
  with run show ?thesis by (rule conjI)
qed

text \<open>
  C10, counterexample: the only record of \<^verbatim>\<open>Hostility\<close> has 4 reviews and no
  company type; the script runs, the review counts of the category add up to 4 and
  the number in the pie chart is 0.
\<close>

theorem pie_total_skips_missing_type:
  "script \<lparr>parse = Map.empty, machine = (\<lambda>vs v. 0), machine_error = Map.empty\<rparr>
     [\<lparr>Company_Name = Some ''A'', Company_Type = None, Company_Location = Some ''Lagos'',
        Standardized_Category = Some ''Hostility'', Review_Count = Num (Py_int 4)\<rparr>]
   = Inr \<lparr>app_viz_df =
       [\<lparr>Company_Name = Some ''A'', Company_Type = None, Company_Location = Some ''Lagos'',
          Standardized_Category = Some ''Hostility'', Review_Count = 4\<rparr>],
       app_company_counts = [],
       app_reviews_per_type = [],
       app_company_breakdown = [(''Hostility'', [(Some ''A'', Some ''Lagos'')])]\<rparr>
   \<and> total_reviews (update_category_pie
       [\<lparr>Company_Name = Some ''A'', Company_Type = None, Company_Location = Some ''Lagos'',
          Standardized_Category = Some ''Hostility'', Review_Count = 4\<rparr>]
       (Some ''Hostility'')) = 0
   \<and> sum_list (map Review_Count
        (filter (\<lambda>r. Standardized_Category r = Some ''Hostility'')
          [\<lparr>Company_Name = Some ''A'', Company_Type = None, Company_Location = Some ''Lagos'',
             Standardized_Category = Some ''Hostility'', Review_Count = 4 :: int64\<rparr>])) = 4"
proof (intro conjI)
  show "script \<lparr>parse = Map.empty, machine = (\<lambda>vs v. 0), machine_error = Map.empty\<rparr>
     [\<lparr>Company_Name = Some ''A'', Company_Type = None, Company_Location = Some ''Lagos'',
        Standardized_Category = Some ''Hostility'', Review_Count = Num (Py_int 4)\<rparr>]
   = Inr \<lparr>app_viz_df =
       [\<lparr>Company_Name = Some ''A'', Company_Type = None, Company_Location = Some ''Lagos'',
          Standardized_Category = Some ''Hostility'', Review_Count = 4\<rparr>],
       app_company_counts = [],
       app_reviews_per_type = [],
       app_company_breakdown = [(''Hostility'', [(Some ''A'', Some ''Lagos'')])]\<rparr>"
    by code_simp
  show "total_reviews (update_category_pie
       [\<lparr>Company_Name = Some ''A'', Company_Type = None, Company_Location = Some ''Lagos'',
          Standardized_Category = Some ''Hostility'', Review_Count = 4\<rparr>]
       (Some ''Hostility'')) = 0"
    by code_simp
  show "sum_list (map Review_Count
        (filter (\<lambda>r. Standardized_Category r = Some ''Hostility'')
          [\<lparr>Company_Name = Some ''A'', Company_Type = None, Company_Location = Some ''Lagos'',
             Standardized_Category = Some ''Hostility'', Review_Count = 4 :: int64\<rparr>])) = 4"
    by simp
qed

subsection \<open>The companies of a category\<close>

text \<open>
  C7. On a frame without rows, and on one in which every row lacks the name or the
  category, the script ends at lines 90 to 93 with a ValueError and no callback is
  ever registered. It gets to the callbacks when the loaded frame has a row with
  name and category, every kept raw count is a missing cell, a text that is no
  number, an integer of at most \<open>2 ^ 53\<close> in absolute value or a float whose
  integer part is in the range of \<^verbatim>\<open>int64\<close>, and no company type is
  \<^verbatim>\<open>Standardized Category\<close>. Then, for a category, let the pairs be name and
  location of the records of the category, in frame order: the callback shows a
  list that has no pair twice, has exactly the pairs, and has them in the order of
  their first occurrence; an empty list is shown as the message that no companies
  were found.
\<close>

theorem company_directory_first_seen:
  "script N [] = Inl ValueError
   \<and> (dropna raw_df = [] \<longrightarrow> script N raw_df = Inl ValueError)
   \<and> (dropna raw_df \<noteq> []
        \<and> (\<forall>r \<in> set (dropna raw_df). plain (to_numeric N (Review_Count r)))
        \<and> (\<forall>r \<in> set raw_df. Company_Type r \<noteq> Some ''Standardized Category'') \<longrightarrow>
      (\<exists>a. script N raw_df = Inr a))
   \<and> (script N raw_df = Inr a \<longrightarrow>
      (\<exists>ds. distinct ds
        \<and> set ds = set (map (\<lambda>r. (Company_Name r, Company_Location r))
             (filter (\<lambda>r. Standardized_Category r = Some c) (app_viz_df a)))
        \<and> sorted_wrt (\<lambda>x y.
             first_seen (map (\<lambda>r. (Company_Name r, Company_Location r))
               (filter (\<lambda>r. Standardized_Category r = Some c) (app_viz_df a))) x
             < first_seen (map (\<lambda>r. (Company_Name r, Company_Location r))
               (filter (\<lambda>r. Standardized_Category r = Some c) (app_viz_df a))) y) ds
        \<and> update_company_breakdown (app_company_breakdown a) (Some c)
            = (if ds = [] then No_companies_found else DataTable ds)))"
proof (intro conjI impI)
  show "script N [] = Inl ValueError"
    by (rule script_Nil)
next
  assume "dropna raw_df = []"
  then show "script N raw_df = Inl ValueError"
    by (rule script_no_rows)
next
  assume "dropna raw_df \<noteq> []
        \<and> (\<forall>r \<in> set (dropna raw_df). plain (to_numeric N (Review_Count r)))
        \<and> (\<forall>r \<in> set raw_df. Company_Type r \<noteq> Some ''Standardized Category'')"
  then show "\<exists>a. script N raw_df = Inr a"
    by (intro script_returns) simp_all
next
  assume run: "script N raw_df = Inr a"
  define ps where "ps = map (\<lambda>r. (Company_Name r, Company_Location r))
            (filter (\<lambda>r. Standardized_Category r = Some c) (app_viz_df a))"
  define ds where "ds = drop_duplicates ps"
  have empty: "ps = [] \<longleftrightarrow> \<not> (\<exists>r \<in> set (app_viz_df a). Standardized_Category r = Some c)"
    unfolding ps_def by (simp add: filter_empty_conv)
  have "set ds = set ps"
    unfolding ds_def by simp
  then have ds_empty: "ds = [] \<longleftrightarrow> ps = []"
    by (metis set_empty)
  have result: "update_company_breakdown (app_company_breakdown a) (Some c)
         = (if ds = [] then No_companies_found else DataTable ds)"
    unfolding update_company_breakdown_Some [OF script_Inr(4) [OF run]] ds_empty empty
    by (simp add: ds_def ps_def)
  have "distinct ds" and "set ds = set ps"
    unfolding ds_def by simp_all
  moreover have "sorted_wrt (\<lambda>x y. first_seen ps x < first_seen ps y) ds"
    unfolding ds_def by (rule first_seen_order_drop_duplicates)
  ultimately have "distinct ds \<and> set ds = set ps
      \<and> sorted_wrt (\<lambda>x y. first_seen ps x < first_seen ps y) ds
      \<and> update_company_breakdown (app_company_breakdown a) (Some c)
         = (if ds = [] then No_companies_found else DataTable ds)"
    using result by (intro conjI)
  then show "\<exists>ds. distinct ds
        \<and> set ds = set (map (\<lambda>r. (Company_Name r, Company_Location r))
             (filter (\<lambda>r. Standardized_Category r = Some c) (app_viz_df a)))
        \<and> sorted_wrt (\<lambda>x y.
             first_seen (map (\<lambda>r. (Company_Name r, Company_Location r))
               (filter (\<lambda>r. Standardized_Category r = Some c) (app_viz_df a))) x
             < first_seen (map (\<lambda>r. (Company_Name r, Company_Location r))
               (filter (\<lambda>r. Standardized_Category r = Some c) (app_viz_df a))) y) ds
        \<and> update_company_breakdown (app_company_breakdown a) (Some c)
            = (if ds = [] then No_companies_found else DataTable ds)"
    unfolding ps_def by (rule exI)
qed

text \<open>
  C7, witness: company A is reported twice for \<^verbatim>\<open>Hostility\<close> and once for another
  category; the script runs and the table for \<^verbatim>\<open>Hostility\<close> lists A, then B.
\<close>

theorem company_directory_first_seen_witness:
  "script \<lparr>parse = Map.empty, machine = (\<lambda>vs v. 0), machine_error = Map.empty\<rparr>
     [\<lparr>Company_Name = Some ''A'', Company_Type = Some ''Government Hospital'',
        Company_Location = Some ''locA'', Standardized_Category = Some ''Hostility'',
        Review_Count = Num (Py_int 10)\<rparr>,
      \<lparr>Company_Name = Some ''B'', Company_Type = Some ''Small Private Hospital'',
        Company_Location = Some ''locB'', Standardized_Category = Some ''Hostility'',
        Review_Count = Num (Py_int 5)\<rparr>,
      \<lparr>Company_Name = Some ''A'', Company_Type = Some ''Government Hospital'',
        Company_Location = Some ''locA'', Standardized_Category = Some ''Hostility'',
        Review_Count = Num (Py_int 7)\<rparr>,
      \<lparr>Company_Name = Some ''A'', Company_Type = Some ''Government Hospital'',
        Company_Location = Some ''locA'', Standardized_Category = Some ''Expensive Costs'',
        Review_Count = Num (Py_int 2)\<rparr>]
   = Inr \<lparr>app_viz_df =
       [\<lparr>Company_Name = Some ''A'', Company_Type = Some ''Government Hospital'',
          Company_Location = Some ''locA'', Standardized_Category = Some ''Hostility'',
          Review_Count = 10\<rparr>,
        \<lparr>Company_Name = Some ''B'', Company_Type = Some ''Small Private Hospital'',
          Company_Location = Some ''locB'', Standardized_Category = Some ''Hostility'',
          Review_Count = 5\<rparr>,
        \<lparr>Company_Name = Some ''A'', Company_Type = Some ''Government Hospital'',
          Company_Location = Some ''locA'', Standardized_Category = Some ''Hostility'',
          Review_Count = 7\<rparr>,
        \<lparr>Company_Name = Some ''A'', Company_Type = Some ''Government Hospital'',
          Company_Location = Some ''locA'', Standardized_Category = Some ''Expensive Costs'',
          Review_Count = 2\<rparr>],
       app_company_counts =
         [(''Expensive Costs'',
           [(''Government Hospital'', 1), (''Small Private Hospital'', 0),
            (''High-Class Private Hospital'', 0), (''Total'', 1)]),
          (''Hostility'',
           [(''Government Hospital'', 2), (''Small Private Hospital'', 1),
            (''High-Class Private Hospital'', 0), (''Total'', 3)])],
       app_reviews_per_type =
         [(''Expensive Costs'',
           [(''Government Hospital'', 2), (''Small Private Hospital'', 0),
            (''High-Class Private Hospital'', 0), (''Total'', 2)]),
          (''Hostility'',
           [(''Government Hospital'', 17), (''Small Private Hospital'', 5),
            (''High-Class Private Hospital'', 0), (''Total'', 22)])],
       app_company_breakdown =
         [(''Expensive Costs'', [(Some ''A'', Some ''locA'')]),
          (''Hostility'', [(Some ''A'', Some ''locA''), (Some ''B'', Some ''locB'')])]\<rparr>
   \<and> update_company_breakdown
        [(''Expensive Costs'', [(Some ''A'', Some ''locA'')]),
         (''Hostility'', [(Some ''A'', Some ''locA''), (Some ''B'', Some ''locB'')])]
        (Some ''Hostility'')
      = DataTable [(Some ''A'', Some ''locA''), (Some ''B'', Some ''locB'')]
   \<and> set [(Some ''A'', Some ''locA''), (Some ''B'', Some ''locB'')]
      = set (map (\<lambda>r. (Company_Name r, Company_Location r))
          (filter (\<lambda>r. Standardized_Category r = Some ''Hostility'')
            [\<lparr>Company_Name = Some ''A'', Company_Type = Some ''Government Hospital'',
               Company_Location = Some ''locA'', Standardized_Category = Some ''Hostility'',
               Review_Count = 10 :: int64\<rparr>,
             \<lparr>Company_Name = Some ''B'', Company_Type = Some ''Small Private Hospital'',
               Company_Location = Some ''locB'', Standardized_Category = Some ''Hostility'',
               Review_Count = 5\<rparr>,
             \<lparr>Company_Name = Some ''A'', Company_Type = Some ''Government Hospital'',
               Company_Location = Some ''locA'', Standardized_Category = Some ''Hostility'',
               Review_Count = 7\<rparr>,
             \<lparr>Company_Name = Some ''A'', Company_Type = Some ''Government Hospital'',
               Company_Location = Some ''locA'', Standardized_Category = Some ''Expensive Costs'',
               Review_Count = 2\<rparr>]))"
proof -
  let ?N = "\<lparr>parse = Map.empty, machine = (\<lambda>vs v. 0), machine_error = Map.empty\<rparr>"
  let ?raw = "[\<lparr>Company_Name = Some ''A'', Company_Type = Some ''Government Hospital'',
        Company_Location = Some ''locA'', Standardized_Category = Some ''Hostility'',
        Review_Count = Num (Py_int 10)\<rparr>,
      \<lparr>Company_Name = Some ''B'', Company_Type = Some ''Small Private Hospital'',
        Company_Location = Some ''locB'', Standardized_Category = Some ''Hostility'',
        Review_Count = Num (Py_int 5)\<rparr>,
      \<lparr>Company_Name = Some ''A'', Company_Type = Some ''Government Hospital'',
        Company_Location = Some ''locA'', Standardized_Category = Some ''Hostility'',
        Review_Count = Num (Py_int 7)\<rparr>,
      \<lparr>Company_Name = Some ''A'', Company_Type = Some ''Government Hospital'',
        Company_Location = Some ''locA'', Standardized_Category = Some ''Expensive Costs'',
        Review_Count = Num (Py_int 2)\<rparr>]"
  let ?df = "[\<lparr>Company_Name = Some ''A'', Company_Type = Some ''Government Hospital'',
          Company_Location = Some ''locA'', Standardized_Category = Some ''Hostility'',
          Review_Count = 10 :: int64\<rparr>,
        \<lparr>Company_Name = Some ''B'', Company_Type = Some ''Small Private Hospital'',
          Company_Location = Some ''locB'', Standardized_Category = Some ''Hostility'',
          Review_Count = 5\<rparr>,
        \<lparr>Company_Name = Some ''A'', Company_Type = Some ''Government Hospital'',
          Company_Location = Some ''locA'', Standardized_Category = Some ''Hostility'',
          Review_Count = 7\<rparr>,
        \<lparr>Company_Name = Some ''A'', Company_Type = Some ''Government Hospital'',
          Company_Location = Some ''locA'', Standardized_Category = Some ''Expensive Costs'',
          Review_Count = 2\<rparr>]"
  let ?cb = "[(''Expensive Costs'', [(Some ''A'', Some ''locA'')]),
          (''Hostility'', [(Some ''A'', Some ''locA''), (Some ''B'', Some ''locB'')])]"
  let ?a = "\<lparr>app_viz_df = ?df,
       app_company_counts =
         [(''Expensive Costs'',
           [(''Government Hospital'', 1), (''Small Private Hospital'', 0),
            (''High-Class Private Hospital'', 0), (''Total'', 1)]),
          (''Hostility'',
           [(''Government Hospital'', 2), (''Small Private Hospital'', 1),
            (''High-Class Private Hospital'', 0), (''Total'', 3)])],
       app_reviews_per_type =
         [(''Expensive Costs'',
           [(''Government Hospital'', 2), (''Small Private Hospital'', 0),
            (''High-Class Private Hospital'', 0), (''Total'', 2)]),
          (''Hostility'',
           [(''Government Hospital'', 17), (''Small Private Hospital'', 5),
            (''High-Class Private Hospital'', 0), (''Total'', 22)])],
       app_company_breakdown = ?cb\<rparr>"
  have run: "script ?N ?raw = Inr ?a"
    by code_simp
  have table: "update_company_breakdown ?cb (Some ''Hostility'')
      = DataTable [(Some ''A'', Some ''locA''), (Some ''B'', Some ''locB'')]"
    by code_simp
  from company_directory_first_seen [where c = "''Hostility''", THEN conjunct2, THEN conjunct2,
      THEN conjunct2, THEN mp, OF run]
  obtain ds where same: "set ds = set (map (\<lambda>r. (Company_Name r, Company_Location r))
          (filter (\<lambda>r. Standardized_Category r = Some ''Hostility'') (app_viz_df ?a)))"
    and shown: "update_company_breakdown (app_company_breakdown ?a) (Some ''Hostility'')
         = (if ds = [] then No_companies_found else DataTable ds)"
    by (elim exE conjE)
  from shown have "update_company_breakdown ?cb (Some ''Hostility'')
         = (if ds = [] then No_companies_found else DataTable ds)"
    by simp
  then have "ds = [(Some ''A'', Some ''locA''), (Some ''B'', Some ''locB'')]"
    unfolding table by (cases "ds = []") simp_all
  with same have "set [(Some ''A'', Some ''locA''), (Some ''B'', Some ''locB'')]
      = set (map (\<lambda>r. (Company_Name r, Company_Location r))
          (filter (\<lambda>r. Standardized_Category r = Some ''Hostility'') ?df))"
    by simp
  with run table show ?thesis by (intro conjI)
qed

text \<open>
  C6, as the code has it. The script gets to the callbacks when the loaded frame
  has a row with name and category, every kept raw count is a missing cell, a text
  that is no number, an integer of at most \<open>2 ^ 53\<close> in absolute value or a
  float whose integer part is in the range of \<^verbatim>\<open>int64\<close>, and no company type is
  \<^verbatim>\<open>Standardized Category\<close>. Once it has, for a selection that is missing or
  that no record of the frame has as its category, the frame handed to the pie
  chart has no row, its total is 0, and the company table is the message that no
  companies were found. The eight names play no part: both callbacks compare with
  the categories in the frame.
\<close>

theorem unselected_category_empty:
  "(dropna raw_df \<noteq> []
        \<and> (\<forall>r \<in> set (dropna raw_df). plain (to_numeric N (Review_Count r)))
        \<and> (\<forall>r \<in> set raw_df. Company_Type r \<noteq> Some ''Standardized Category'') \<longrightarrow>
      (\<exists>a. script N raw_df = Inr a))
   \<and> (script N raw_df = Inr a
        \<and> (sel = None \<or> sel \<notin> Standardized_Category ` set (app_viz_df a)) \<longrightarrow>
      category_by_type (update_category_pie (app_viz_df a) sel) = []
      \<and> total_reviews (update_category_pie (app_viz_df a) sel) = 0
      \<and> update_company_breakdown (app_company_breakdown a) sel = No_companies_found)"
proof (intro conjI impI)
  assume "dropna raw_df \<noteq> []
        \<and> (\<forall>r \<in> set (dropna raw_df). plain (to_numeric N (Review_Count r)))
        \<and> (\<forall>r \<in> set raw_df. Company_Type r \<noteq> Some ''Standardized Category'')"
  then show "\<exists>a. script N raw_df = Inr a"
    by (intro script_returns) simp_all
next
  assume both: "script N raw_df = Inr a
        \<and> (sel = None \<or> sel \<notin> Standardized_Category ` set (app_viz_df a))"
  then have run: "script N raw_df = Inr a"
    and sel: "sel = None \<or> sel \<notin> Standardized_Category ` set (app_viz_df a)"
    by simp_all
  have no_row: "filter (\<lambda>r. eq_cell (Standardized_Category r) sel) (app_viz_df a) = []"
  proof (cases sel)
    case None
    then show ?thesis by simp
  next
    case (Some c)
    with sel have "Some c \<notin> Standardized_Category ` set (app_viz_df a)" by simp
    then have "\<forall>r \<in> set (app_viz_df a). Standardized_Category r \<noteq> Some c"
      by (metis imageI)
    with Some show ?thesis by (simp add: filter_empty_conv)
  qed
  show "category_by_type (update_category_pie (app_viz_df a) sel) = []"
    and "total_reviews (update_category_pie (app_viz_df a) sel) = 0"
    by (simp_all add: update_category_pie_def no_row groupby_sum_def)
  show "update_company_breakdown (app_company_breakdown a) sel = No_companies_found"
  proof (cases sel)
    case None
    then show ?thesis by (simp add: update_company_breakdown_None)
  next
    case (Some c)
    with sel have "Some c \<notin> Standardized_Category ` set (app_viz_df a)" by simp
    then have "\<not> (\<exists>r \<in> set (app_viz_df a). Standardized_Category r = Some c)"
      by (metis imageI)
    with Some show ?thesis
      by (simp add: update_company_breakdown_Some [OF script_Inr(4) [OF run]])
  qed
qed

text \<open>
  C6, witness: \<^verbatim>\<open>Others\<close> selected after the script has run on a frame that has
  \<^verbatim>\<open>Hostility\<close> only.
\<close>

theorem unselected_category_empty_witness:
  "script \<lparr>parse = Map.empty, machine = (\<lambda>vs v. 0), machine_error = Map.empty\<rparr>
     [\<lparr>Company_Name = Some ''A'', Company_Type = Some ''Government Hospital'',
        Company_Location = Some ''locA'', Standardized_Category = Some ''Hostility'',
        Review_Count = Num (Py_int 10)\<rparr>]
   = Inr \<lparr>app_viz_df =
       [\<lparr>Company_Name = Some ''A'', Company_Type = Some ''Government Hospital'',
          Company_Location = Some ''locA'', Standardized_Category = Some ''Hostility'',
          Review_Count = 10\<rparr>],
       app_company_counts =
         [(''Hostility'',
           [(''Government Hospital'', 1), (''Small Private Hospital'', 0),
            (''High-Class Private Hospital'', 0), (''Total'', 1)])],
       app_reviews_per_type =
         [(''Hostility'',
           [(''Government Hospital'', 10), (''Small Private Hospital'', 0),
            (''High-Class Private Hospital'', 0), (''Total'', 10)])],
       app_company_breakdown = [(''Hostility'', [(Some ''A'', Some ''locA'')])]\<rparr>
   \<and> category_by_type (update_category_pie
       [\<lparr>Company_Name = Some ''A'', Company_Type = Some ''Government Hospital'',
          Company_Location = Some ''locA'', Standardized_Category = Some ''Hostility'',
          Review_Count = 10\<rparr>] (Some ''Others'')) = []
   \<and> total_reviews (update_category_pie
       [\<lparr>Company_Name = Some ''A'', Company_Type = Some ''Government Hospital'',
          Company_Location = Some ''locA'', Standardized_Category = Some ''Hostility'',
          Review_Count = 10\<rparr>] (Some ''Others'')) = 0
   \<and> update_company_breakdown [(''Hostility'', [(Some ''A'', Some ''locA'')])] (Some ''Others'')
      = No_companies_found"
proof -
  let ?N = "\<lparr>parse = Map.empty, machine = (\<lambda>vs v. 0), machine_error = Map.empty\<rparr>"
  let ?raw = "[\<lparr>Company_Name = Some ''A'', Company_Type = Some ''Government Hospital'',
        Company_Location = Some ''locA'', Standardized_Category = Some ''Hostility'',
        Review_Count = Num (Py_int 10)\<rparr>]"
  let ?df = "[\<lparr>Company_Name = Some ''A'', Company_Type = Some ''Government Hospital'',
          Company_Location = Some ''locA'', Standardized_Category = Some ''Hostility'',
          Review_Count = 10 :: int64\<rparr>]"
  let ?a = "\<lparr>app_viz_df = ?df,
       app_company_counts =
         [(''Hostility'',
           [(''Government Hospital'', 1), (''Small Private Hospital'', 0),
            (''High-Class Private Hospital'', 0), (''Total'', 1)])],
       app_reviews_per_type =
         [(''Hostility'',
           [(''Government Hospital'', 10), (''Small Private Hospital'', 0),
            (''High-Class Private Hospital'', 0), (''Total'', 10)])],
       app_company_breakdown = [(''Hostility'', [(Some ''A'', Some ''locA'')])]\<rparr>"
  have run: "script ?N ?raw = Inr ?a"
    by code_simp
  have "Some ''Others'' \<notin> Standardized_Category ` set (app_viz_df ?a)"
    by simp
  then have "Some ''Others'' = None
      \<or> Some ''Others'' \<notin> Standardized_Category ` set (app_viz_df ?a)"
    by (rule disjI2)
  with run have "script ?N ?raw = Inr ?a
      \<and> (Some ''Others'' = None
        \<or> Some ''Others'' \<notin> Standardized_Category ` set (app_viz_df ?a))"
    by (rule conjI)
  from unselected_category_empty [THEN conjunct2, THEN mp, OF this]
  have "category_by_type (update_category_pie ?df (Some ''Others'')) = []
     \<and> total_reviews (update_category_pie ?df (Some ''Others'')) = 0
     \<and> update_company_breakdown [(''Hostility'', [(Some ''A'', Some ''locA'')])] (Some ''Others'')
        = No_companies_found"
    by simp
  with run show ?thesis by (rule conjI)
qed

text \<open>
  C6, counterexample: \<^verbatim>\<open>Billing Errors\<close> is none of the eight names; the script
  runs on a raw record of it, and selecting it gives a pie chart with one slice and
  a table with one company.
\<close>

theorem selected_unknown_category_not_empty:
  "''Billing Errors'' \<notin> set available_categories
   \<and> script \<lparr>parse = Map.empty, machine = (\<lambda>vs v. 0), machine_error = Map.empty\<rparr>
        [\<lparr>Company_Name = Some ''A'', Company_Type = Some ''Government Hospital'',
           Company_Location = Some ''Lagos'', Standardized_Category = Some ''Billing Errors'',
           Review_Count = Num (Py_int 3)\<rparr>]
      = Inr \<lparr>app_viz_df =
          [\<lparr>Company_Name = Some ''A'', Company_Type = Some ''Government Hospital'',
             Company_Location = Some ''Lagos'', Standardized_Category = Some ''Billing Errors'',
             Review_Count = 3\<rparr>],
          app_company_counts =
            [(''Billing Errors'',
              [(''Government Hospital'', 1), (''Small Private Hospital'', 0),
               (''High-Class Private Hospital'', 0), (''Total'', 1)])],
          app_reviews_per_type =
            [(''Billing Errors'',
              [(''Government Hospital'', 3), (''Small Private Hospital'', 0),
               (''High-Class Private Hospital'', 0), (''Total'', 3)])],
          app_company_breakdown = [(''Billing Errors'', [(Some ''A'', Some ''Lagos'')])]\<rparr>
   \<and> category_by_type (update_category_pie
        [\<lparr>Company_Name = Some ''A'', Company_Type = Some ''Government Hospital'',
           Company_Location = Some ''Lagos'', Standardized_Category = Some ''Billing Errors'',
           Review_Count = 3\<rparr>]
        (Some ''Billing Errors'')) = [(''Government Hospital'', 3)]
   \<and> total_reviews (update_category_pie
        [\<lparr>Company_Name = Some ''A'', Company_Type = Some ''Government Hospital'',
           Company_Location = Some ''Lagos'', Standardized_Category = Some ''Billing Errors'',
           Review_Count = 3\<rparr>]
        (Some ''Billing Errors'')) = 3
   \<and> update_company_breakdown [(''Billing Errors'', [(Some ''A'', Some ''Lagos'')])]
        (Some ''Billing Errors'') = DataTable [(Some ''A'', Some ''Lagos'')]"
proof (intro conjI)
  show "''Billing Errors'' \<notin> set available_categories"
    by (simp add: available_categories_def)
  show "script \<lparr>parse = Map.empty, machine = (\<lambda>vs v. 0), machine_error = Map.empty\<rparr>
        [\<lparr>Company_Name = Some ''A'', Company_Type = Some ''Government Hospital'',
           Company_Location = Some ''Lagos'', Standardized_Category = Some ''Billing Errors'',
           Review_Count = Num (Py_int 3)\<rparr>]
      = Inr \<lparr>app_viz_df =
          [\<lparr>Company_Name = Some ''A'', Company_Type = Some ''Government Hospital'',
             Company_Location = Some ''Lagos'', Standardized_Category = Some ''Billing Errors'',
             Review_Count = 3\<rparr>],
          app_company_counts =
            [(''Billing Errors'',
              [(''Government Hospital'', 1), (''Small Private Hospital'', 0),
               (''High-Class Private Hospital'', 0), (''Total'', 1)])],
          app_reviews_per_type =
            [(''Billing Errors'',
              [(''Government Hospital'', 3), (''Small Private Hospital'', 0),
               (''High-Class Private Hospital'', 0), (''Total'', 3)])],
          app_company_breakdown = [(''Billing Errors'', [(Some ''A'', Some ''Lagos'')])]\<rparr>"
    by code_simp
  show "category_by_type (update_category_pie
        [\<lparr>Company_Name = Some ''A'', Company_Type = Some ''Government Hospital'',
           Company_Location = Some ''Lagos'', Standardized_Category = Some ''Billing Errors'',
           Review_Count = 3\<rparr>]
        (Some ''Billing Errors'')) = [(''Government Hospital'', 3)]"
    by code_simp
  show "total_reviews (update_category_pie
        [\<lparr>Company_Name = Some ''A'', Company_Type = Some ''Government Hospital'',
           Company_Location = Some ''Lagos'', Standardized_Category = Some ''Billing Errors'',
           Review_Count = 3\<rparr>]
        (Some ''Billing Errors'')) = 3"
    by code_simp
  show "update_company_breakdown [(''Billing Errors'', [(Some ''A'', Some ''Lagos'')])]
        (Some ''Billing Errors'') = DataTable [(Some ''A'', Some ''Lagos'')]"
    by code_simp
qed

end
